theory Spec2Isabelle
  imports Complex_Main "HOL-Library.Multiset"
begin

section \<open>JavaScript values shared by all modules\<close>

text \<open>
  A JavaScript string is a sequence of UTF-16 code units; it is modelled as the list of
  their numeric values. \<open>js\<close> turns a literal of the theory into such a list.
\<close>

type_synonym jsstring = "nat list"

definition js :: "string \<Rightarrow> jsstring" where
  "js s = map of_char s"

text \<open>
  \<open>String.prototype.toLowerCase\<close> and \<open>String.prototype.normalize('NFD')\<close> are
  built-ins driven by the Unicode tables. They are parameters of every function that calls
  them. \<open>basic_latin\<close> is the instance that is exact on strings of Basic Latin (ASCII)
  characters, where lowercasing only touches A-Z and decomposition changes nothing.
\<close>

record unicode =
  toLowerCase :: "jsstring \<Rightarrow> jsstring"
  normalizeNFD :: "jsstring \<Rightarrow> jsstring"

definition ascii_lower :: "nat \<Rightarrow> nat" where
  "ascii_lower c = (if 65 \<le> c \<and> c \<le> 90 then c + 32 else c)"

definition basic_latin :: unicode where
  "basic_latin = \<lparr> toLowerCase = map ascii_lower, normalizeNFD = (\<lambda>s. s) \<rparr>"

text \<open>A thrown JavaScript value; \<open>Inl\<close> of it is a rejected promise or a raised exception.\<close>

datatype js_error = Thrown jsstring

text \<open>The relational operator \<open><\<close> on two strings compares code units lexicographically;
  \<open>a >= b\<close> is the negation of \<open>a < b\<close>.\<close>

fun js_lt :: "jsstring \<Rightarrow> jsstring \<Rightarrow> bool" where
  "js_lt [] [] = False"
| "js_lt [] (y # ys) = True"
| "js_lt (x # xs) [] = False"
| "js_lt (x # xs) (y # ys) = (x < y \<or> (x = y \<and> js_lt xs ys))"

definition js_ge :: "jsstring \<Rightarrow> jsstring \<Rightarrow> bool" where
  "js_ge a b = (\<not> js_lt a b)"

text \<open>
  \<open>Array.prototype.sort\<close> with a comparator: a stable sort, modelled as the insertion
  sort that places an element before the first element it does not compare greater than.
\<close>

fun sort_insert :: "('a \<Rightarrow> 'a \<Rightarrow> int) \<Rightarrow> 'a \<Rightarrow> 'a list \<Rightarrow> 'a list" where
  "sort_insert cmp x [] = [x]"
| "sort_insert cmp x (y # ys) =
     (if cmp x y \<le> 0 then x # y # ys else y # sort_insert cmp x ys)"

definition Array_sort :: "('a \<Rightarrow> 'a \<Rightarrow> int) \<Rightarrow> 'a list \<Rightarrow> 'a list" where
  "Array_sort cmp xs = foldr (sort_insert cmp) xs []"

section \<open>Data client (src/sheets/client.ts)\<close>

record SheetEvent =
  se_id :: jsstring
  se_name :: jsstring
  se_slug :: jsstring
  se_event_type :: jsstring
  start_date :: jsstring
  end_date :: "jsstring option"
  se_city :: jsstring
  se_city_slug :: jsstring
  se_region :: jsstring
  se_region_slug :: jsstring
  se_venue :: "jsstring option"
  se_genres :: "jsstring list"
  se_artists :: "jsstring list"
  se_organizer :: "jsstring option"
  se_official_website :: "jsstring option"
  se_ticket_url :: "jsstring option"
  se_status :: jsstring
  se_is_verified :: bool
  se_is_pinned :: bool
  se_cultural_significance :: int
  se_description :: "jsstring option"
  se_image_url :: "jsstring option"
  title_en :: jsstring
  title_fr :: jsstring
  title_es :: jsstring
  title_ar :: jsstring
  description_fr :: "jsstring option"
  description_es :: "jsstring option"
  description_ar :: "jsstring option"
  price_min :: real
  price_max :: real
  price_isFree :: bool
  lat :: real
  lng :: real
  email :: "jsstring option"
  phone :: "jsstring option"
  wheelchairAccess :: bool
  signLanguage :: bool
  audioDescription :: bool

subsection \<open>Event types\<close>

text \<open>The union \<open>EventType\<close> of the canonical type definitions: its five string literals.\<close>

datatype EventType = Festival | Concert | Showcase | Ritual | Conference

fun EventType_literal :: "EventType \<Rightarrow> jsstring" where
  "EventType_literal Festival = js ''festival''"
| "EventType_literal Concert = js ''concert''"
| "EventType_literal Showcase = js ''showcase''"
| "EventType_literal Ritual = js ''ritual''"
| "EventType_literal Conference = js ''conference''"

text \<open>The enum \<open>EventType\<close> of the taxonomy module, with the string value of each member.\<close>

datatype TaxonomyEventType = FESTIVAL | CONCERT | MOUSSEM | LILA | SHOWCASE | GATHERING

fun TaxonomyEventType_value :: "TaxonomyEventType \<Rightarrow> jsstring" where
  "TaxonomyEventType_value FESTIVAL = js ''festival''"
| "TaxonomyEventType_value CONCERT = js ''concert''"
| "TaxonomyEventType_value MOUSSEM = js ''moussem''"
| "TaxonomyEventType_value LILA = js ''lila''"
| "TaxonomyEventType_value SHOWCASE = js ''showcase''"
| "TaxonomyEventType_value GATHERING = js ''gathering''"

text \<open>The fixed set of event types, in the words of the specification.\<close>

definition spec_event_types :: "jsstring set" where
  "spec_event_types =
     {js ''festival'', js ''concert'', js ''showcase'', js ''ritual'', js ''conference''}"

text \<open>
  \<open>categoryToEventType\<close> reads \<open>map[category?.toLowerCase()]\<close> from an object literal.
  A property read on an object literal also finds the members inherited from
  \<open>Object.prototype\<close>, which are functions or objects and therefore truthy: for those keys
  the function returns the inherited member, not a string. \<open>category?.\<close> yields
  \<open>undefined\<close> for a missing category, a key that the literal does not have.
\<close>

datatype js_property = JString jsstring | JInherited jsstring

definition category_map :: "(jsstring \<times> jsstring) list" where
  "category_map =
     [(js ''music'', js ''festival''),
      (js ''art'', js ''festival''),
      (js ''film'', js ''festival''),
      (js ''heritage'', js ''ritual''),
      (js ''food'', js ''festival''),
      (js ''spiritual'', js ''ritual''),
      (js ''dance'', js ''festival''),
      (js ''theatre'', js ''showcase''),
      (js ''literature'', js ''conference''),
      (js ''craft'', js ''festival'')]"

definition object_prototype_keys :: "jsstring list" where
  "object_prototype_keys =
     [js ''constructor'', js ''__defineGetter__'', js ''__defineSetter__'',
      js ''hasOwnProperty'', js ''__lookupGetter__'', js ''__lookupSetter__'',
      js ''isPrototypeOf'', js ''propertyIsEnumerable'', js ''toString'', js ''valueOf'',
      js ''__proto__'', js ''toLocaleString'']"

definition categoryToEventType :: "unicode \<Rightarrow> jsstring option \<Rightarrow> js_property" where
  "categoryToEventType U category =
     (case category of
        None \<Rightarrow> JString (js ''festival'')
      | Some c \<Rightarrow>
          (let key = toLowerCase U c in
           case map_of category_map key of
             Some v \<Rightarrow> JString v
           | None \<Rightarrow>
               if key \<in> set object_prototype_keys then JInherited key
               else JString (js ''festival'')))"

subsection \<open>The cached fetch\<close>

text \<open>
  The module state: \<open>_cachedEvents\<close> and \<open>_cacheTimestamp\<close>. The store query either
  throws (also when the client cannot be built) or resolves to the pair \<open>{data, error}\<close>.
  The row conversion is a parameter that may throw, since rows are untyped. \<open>now1\<close> and
  \<open>now2\<close> are the values of the two \<open>Date.now()\<close> calls.
\<close>

record 'e cache =
  cachedEvents :: "'e list option"
  cacheTimestamp :: int

definition initial_cache :: "'e cache" where
  "initial_cache = \<lparr> cachedEvents = None, cacheTimestamp = 0 \<rparr>"

definition CACHE_TTL :: int where
  "CACHE_TTL = 5 * 60 * 1000"

datatype 'r query_outcome = QueryThrows js_error | QueryResult "'r list option" "js_error option"

fun map_rows :: "('r \<Rightarrow> js_error + 'e) \<Rightarrow> 'r list \<Rightarrow> js_error + 'e list" where
  "map_rows f [] = Inr []"
| "map_rows f (r # rs) =
     (case f r of
        Inl e \<Rightarrow> Inl e
      | Inr v \<Rightarrow> (case map_rows f rs of Inl e \<Rightarrow> Inl e | Inr vs \<Rightarrow> Inr (v # vs)))"

definition fetch_try ::
  "('r \<Rightarrow> js_error + 'e) \<Rightarrow> 'r query_outcome \<Rightarrow> int \<Rightarrow> 'e cache \<Rightarrow> (js_error + 'e list) \<times> 'e cache"
where
  "fetch_try rowToEvent outcome now2 st =
     (case outcome of
        QueryThrows e \<Rightarrow> (Inl e, st)
      | QueryResult data error \<Rightarrow>
          (case error of
             Some e \<Rightarrow> (Inl e, st)
           | None \<Rightarrow>
               (case map_rows rowToEvent (case data of None \<Rightarrow> [] | Some d \<Rightarrow> d) of
                  Inl e \<Rightarrow> (Inl e, st)
                | Inr events \<Rightarrow>
                    (Inr events, st\<lparr> cachedEvents := Some events, cacheTimestamp := now2 \<rparr>))))"

definition fetch_catch :: "js_error \<Rightarrow> 'e cache \<Rightarrow> (js_error + 'e list) \<times> 'e cache" where
  "fetch_catch error st =
     (case cachedEvents st of Some evs \<Rightarrow> (Inr evs, st) | None \<Rightarrow> (Inr [], st))"

definition fetchEvents ::
  "('r \<Rightarrow> js_error + 'e) \<Rightarrow> int \<Rightarrow> 'r query_outcome \<Rightarrow> int \<Rightarrow> 'e cache \<Rightarrow> (js_error + 'e list) \<times> 'e cache"
where
  "fetchEvents rowToEvent now1 outcome now2 st =
     (case cachedEvents st of
        Some evs \<Rightarrow>
          if now1 - cacheTimestamp st < CACHE_TTL then (Inr evs, st)
          else (case fetch_try rowToEvent outcome now2 st of
                  (Inl e, st') \<Rightarrow> fetch_catch e st'
                | (Inr events, st') \<Rightarrow> (Inr events, st'))
      | None \<Rightarrow>
          (case fetch_try rowToEvent outcome now2 st of
             (Inl e, st') \<Rightarrow> fetch_catch e st'
           | (Inr events, st') \<Rightarrow> (Inr events, st')))"

subsection \<open>Upcoming events\<close>

text \<open>
  \<open>today\<close> is \<open>new Date().toISOString().split("T")[0]\<close>, the date part of the clock
  reading. \<open>String.prototype.localeCompare\<close> is the collation of the host locale, a
  parameter.
\<close>

definition getUpcomingEvents ::
  "jsstring \<Rightarrow> (jsstring \<Rightarrow> jsstring \<Rightarrow> int) \<Rightarrow> SheetEvent list \<Rightarrow> SheetEvent list"
where
  "getUpcomingEvents today localeCompare events =
     Array_sort (\<lambda>a b. localeCompare (start_date a) (start_date b))
       (filter (\<lambda>e. js_ge (start_date e) today) events)"

text \<open>The store query counts as failed when it throws, when it reports an error, or when
  the conversion of one of its rows throws.\<close>

definition query_failed :: "('r \<Rightarrow> js_error + 'e) \<Rightarrow> 'r query_outcome \<Rightarrow> bool" where
  "query_failed rowToEvent outcome =
     (case outcome of
        QueryThrows e \<Rightarrow> True
      | QueryResult data error \<Rightarrow>
          error \<noteq> None \<or> isl (map_rows rowToEvent (case data of None \<Rightarrow> [] | Some d \<Rightarrow> d)))"

subsection \<open>Sample data of the data client\<close>

text \<open>An event as \<open>rowToEvent\<close> builds it, a row conversion that throws on the row 0, and
  the comparison of two strings by code units (what \<open>localeCompare\<close> computes on dates
  written as YYYY-MM-DD).\<close>

definition example_event :: SheetEvent where
  "example_event =
     \<lparr> se_id = js ''gnaoua-2025'', se_name = js ''Festival Gnaoua'', se_slug = js ''festival-gnaoua'',
       se_event_type = js ''festival'', start_date = js ''2025-06-26'', end_date = None,
       se_city = js ''Essaouira'', se_city_slug = js ''essaouira'',
       se_region = js ''Marrakech-Safi'', se_region_slug = js ''marrakech-safi'',
       se_venue = None, se_genres = [], se_artists = [], se_organizer = None,
       se_official_website = None, se_ticket_url = None, se_status = js ''published'',
       se_is_verified = True, se_is_pinned = False, se_cultural_significance = 5,
       se_description = None, se_image_url = None,
       title_en = js ''Festival Gnaoua'', title_fr = [], title_es = [], title_ar = [],
       description_fr = None, description_es = None, description_ar = None,
       price_min = 0, price_max = 0, price_isFree = False, lat = 0, lng = 0,
       email = None, phone = None,
       wheelchairAccess = False, signLanguage = False, audioDescription = False \<rparr>"

definition example_rowToEvent :: "nat \<Rightarrow> js_error + nat" where
  "example_rowToEvent r = (if r = 0 then Inl (Thrown (js ''TypeError'')) else Inr r)"

definition codeunit_compare :: "jsstring \<Rightarrow> jsstring \<Rightarrow> int" where
  "codeunit_compare a b = (if js_lt a b then - 1 else if js_lt b a then 1 else 0)"

section \<open>Ingestion and deduplication pipeline\<close>

subsection \<open>Name normalization\<close>

text \<open>
  The character classes of the regular expressions: the combining marks U+0300 to U+036F,
  \<open>\d\<close> (ASCII digits), \<open>a-z\<close>, and \<open>\s\<close>, the white space and line terminators of
  ECMAScript.
\<close>

definition is_combining_mark :: "nat \<Rightarrow> bool" where
  "is_combining_mark c = (768 \<le> c \<and> c \<le> 879)"

definition is_digit :: "nat \<Rightarrow> bool" where
  "is_digit c = (48 \<le> c \<and> c \<le> 57)"

definition is_lower_alpha :: "nat \<Rightarrow> bool" where
  "is_lower_alpha c = (97 \<le> c \<and> c \<le> 122)"

definition is_space :: "nat \<Rightarrow> bool" where
  "is_space c =
     (c \<in> {9, 10, 11, 12, 13, 32, 160, 5760, 8232, 8233, 8239, 8287, 12288, 65279}
      \<or> (8192 \<le> c \<and> c \<le> 8202))"

text \<open>
  \<open>/festival|fest|edition|\d{4}/gi\<close>: at a position the alternatives are tried in this
  order. Under the flag \<open>i\<close> (without \<open>u\<close>) a pattern letter matches itself and its
  ASCII capital and no other character. \<open>noise_match\<close> is the length of the match at the
  head of the string. A global replace scans from the left, removes a match and goes on
  behind it.
\<close>

fun ci_prefix :: "jsstring \<Rightarrow> jsstring \<Rightarrow> bool" where
  "ci_prefix [] s = True"
| "ci_prefix (p # ps) [] = False"
| "ci_prefix (p # ps) (c # cs) = (ascii_lower c = p \<and> ci_prefix ps cs)"

definition four_digits :: "jsstring \<Rightarrow> bool" where
  "four_digits s = (4 \<le> length s \<and> list_all is_digit (take 4 s))"

definition noise_match :: "jsstring \<Rightarrow> nat option" where
  "noise_match s =
     (if ci_prefix (js ''festival'') s then Some 8
      else if ci_prefix (js ''fest'') s then Some 4
      else if ci_prefix (js ''edition'') s then Some 7
      else if four_digits s then Some 4
      else None)"

function remove_noise :: "jsstring \<Rightarrow> jsstring" where
  "remove_noise [] = []"
| "remove_noise (c # cs) =
     (case noise_match (c # cs) of
        Some n \<Rightarrow> remove_noise (drop n (c # cs))
      | None \<Rightarrow> c # remove_noise cs)"
  by pat_completeness auto
termination
  by (relation "measure length") (auto simp: noise_match_def less_Suc_eq_le split: if_splits)

text \<open>\<open>/\s+/g\<close> replaced by one space, and \<open>trim\<close>.\<close>

function collapse_spaces :: "jsstring \<Rightarrow> jsstring" where
  "collapse_spaces [] = []"
| "collapse_spaces (c # cs) =
     (if is_space c then 32 # collapse_spaces (dropWhile is_space cs)
      else c # collapse_spaces cs)"
  by pat_completeness auto
termination
  by (relation "measure length") (auto simp: le_imp_less_Suc length_dropWhile_le)

definition trim :: "jsstring \<Rightarrow> jsstring" where
  "trim s = rev (dropWhile is_space (rev (dropWhile is_space s)))"

definition normalizeName :: "unicode \<Rightarrow> jsstring \<Rightarrow> jsstring" where
  "normalizeName U name =
     trim (collapse_spaces
       (filter (\<lambda>c. is_lower_alpha c \<or> is_digit c \<or> is_space c)
         (remove_noise
           (filter (\<lambda>c. \<not> is_combining_mark c)
             (normalizeNFD U (toLowerCase U name))))))"

text \<open>A string contains noise when the noise expression matches at one of its positions.\<close>

fun contains_noise :: "jsstring \<Rightarrow> bool" where
  "contains_noise [] = False"
| "contains_noise (c # cs) = (noise_match (c # cs) \<noteq> None \<or> contains_noise cs)"

text \<open>The Unicode built-ins leave a string of \<open>a-z\<close>, \<open>0-9\<close> and spaces as it is.\<close>

definition clean_char :: "nat \<Rightarrow> bool" where
  "clean_char c = (is_lower_alpha c \<or> is_digit c \<or> c = 32)"

definition fixes_clean_strings :: "unicode \<Rightarrow> bool" where
  "fixes_clean_strings U =
     (\<forall>t. list_all clean_char t \<longrightarrow> toLowerCase U t = t \<and> normalizeNFD U t = t)"

subsection \<open>City matching\<close>

text \<open>
  A row of the table \<open>cities\<close>; \<open>name_fr\<close> may be null, and \<open>normalizeName(null)\<close> throws
  a TypeError. \<open>levenshtein\<close> is a parameter of \<open>matchCity\<close>: the sources call it and do
  not define it.
\<close>

record City =
  city_id :: nat
  city_name :: jsstring
  city_name_fr :: "jsstring option"

fun find_exact :: "unicode \<Rightarrow> jsstring \<Rightarrow> City list \<Rightarrow> js_error + City option" where
  "find_exact U normalized [] = Inr None"
| "find_exact U normalized (c # cs) =
     (if normalizeName U (city_name c) = normalized then Inr (Some c)
      else case city_name_fr c of
             None \<Rightarrow> Inl (Thrown (js ''TypeError''))
           | Some fr \<Rightarrow>
               if normalizeName U fr = normalized then Inr (Some c)
               else find_exact U normalized cs)"

definition matchCity ::
  "(jsstring \<Rightarrow> jsstring \<Rightarrow> nat) \<Rightarrow> unicode \<Rightarrow> City list \<Rightarrow> jsstring option \<Rightarrow> js_error + nat option"
where
  "matchCity levenshtein U cities rawCity =
     (case rawCity of
        None \<Rightarrow> Inr None
      | Some raw \<Rightarrow>
          if raw = [] then Inr None
          else
            (let normalized = normalizeName U raw in
             case find_exact U normalized cities of
               Inl e \<Rightarrow> Inl e
             | Inr (Some exact) \<Rightarrow> Inr (Some (city_id exact))
             | Inr None \<Rightarrow>
                 (case find (\<lambda>c. levenshtein (normalizeName U (city_name c)) normalized \<le> 2)
                         cities of
                    Some fuzzy \<Rightarrow> Inr (Some (city_id fuzzy))
                  | None \<Rightarrow> Inr None)))"

text \<open>Modelled from the spec: the helper \<open>levenshtein\<close>, which the sources call and do not
  define. The specification names the Levenshtein distance; this is its usual recursion
  (deletion, insertion, substitution, each of cost 1).\<close>

fun levenshtein :: "jsstring \<Rightarrow> jsstring \<Rightarrow> nat" where
  "levenshtein [] ys = length ys"
| "levenshtein (x # xs) [] = Suc (length xs)"
| "levenshtein (x # xs) (y # ys) =
     min (min (levenshtein xs (y # ys) + 1) (levenshtein (x # xs) ys + 1))
         (levenshtein xs ys + (if x = y then 0 else 1))"

definition example_cities :: "City list" where
  "example_cities =
     [\<lparr> city_id = 1, city_name = js ''Sale'', city_name_fr = Some (js ''Sale'') \<rparr>,
      \<lparr> city_id = 2, city_name = js ''Safi'', city_name_fr = Some (js ''Safi'') \<rparr>]"

text \<open>The same table with a first row whose French name is null.\<close>

definition example_cities_null_fr :: "City list" where
  "example_cities_null_fr =
     [\<lparr> city_id = 1, city_name = js ''Sale'', city_name_fr = None \<rparr>,
      \<lparr> city_id = 2, city_name = js ''Safi'', city_name_fr = Some (js ''Safi'') \<rparr>]"

subsection \<open>Deduplication\<close>

datatype FingerprintType = Exact | FuzzyName | DateLocation | WeekLocation

record Fingerprint =
  fp_type :: FingerprintType
  fp_value :: jsstring

record FingerprintMatch =
  eventId :: nat

record NormalizedCandidate =
  rawName :: jsstring
  sourceId :: nat
  externalId :: jsstring
  sourceUrl :: jsstring
  normalizedName :: jsstring
  startDate :: jsstring
  endDate :: "jsstring option"
  cityId :: "nat option"
  venueId :: "nat option"
  fingerprints :: "Fingerprint list"

record Event =
  ev_name :: jsstring
  ev_startDate :: jsstring
  ev_endDate :: "jsstring option"
  ev_cityId :: "nat option"
  ev_venueId :: "nat option"
  ev_status :: jsstring
  ev_description :: "jsstring option"
  ev_officialWebsite :: "jsstring option"
  ev_lastVerifiedAt :: "jsstring option"

text \<open>The payload a source reported, with the four members the scorer reads:
  \<open>start_date\<close>, \<open>date\<close>, \<open>venue.name\<close> and \<open>location\<close>.\<close>

record raw_data =
  rd_start_date :: "jsstring option"
  rd_date :: "jsstring option"
  rd_venue_name :: "jsstring option"
  rd_location :: "jsstring option"

record EventSource =
  es_sourceId :: nat
  es_reliabilityScore :: real
  es_rawData :: "raw_data option"

text \<open>
  The helpers that the pipeline calls and the sources do not define, the store lookups
  among them, and the clock reading that \<open>new Date()\<close> passes to \<open>daysBetween\<close>. Numbers
  are real numbers.
\<close>

record pipeline_env =
  unicode_ops :: unicode
  jaroWinkler :: "jsstring \<Rightarrow> jsstring \<Rightarrow> real"
  daysBetween :: "jsstring \<Rightarrow> jsstring \<Rightarrow> real"
  normalizeDate :: "jsstring \<Rightarrow> jsstring"
  findMatchByFingerprint :: "Fingerprint list \<Rightarrow> FingerprintType \<Rightarrow> FingerprintMatch option"
  findMatchesByFingerprint :: "Fingerprint list \<Rightarrow> FingerprintType \<Rightarrow> FingerprintMatch list"
  getEvent :: "nat \<Rightarrow> Event"
  getEventSources :: "nat \<Rightarrow> EventSource list"
  getSourceHistoricalAccuracy :: "nat option \<Rightarrow> real option"
  now :: jsstring

datatype Action = Create | Merge | Review

datatype MatchType = MatchExact | MatchFuzzyName | MatchDateLocation | MatchNone

record DeduplicationResult =
  action :: Action
  existingEventId :: "nat option"
  confidence :: real
  matchType :: MatchType

text \<open>\<open>!venueId\<close> holds for null and for the number 0.\<close>

definition falsy_id :: "nat option \<Rightarrow> bool" where
  "falsy_id v = (v = None \<or> v = Some 0)"

definition dateScore :: "pipeline_env \<Rightarrow> NormalizedCandidate \<Rightarrow> Event \<Rightarrow> real" where
  "dateScore env candidate event =
     (if startDate candidate = ev_startDate event then 1.0
      else if \<bar>daysBetween env (startDate candidate) (ev_startDate event)\<bar> \<le> 1 then 0.8
      else if \<bar>daysBetween env (startDate candidate) (ev_startDate event)\<bar> \<le> 7 then 0.5
      else 0)"

definition venueScore :: "NormalizedCandidate \<Rightarrow> Event \<Rightarrow> real" where
  "venueScore candidate event =
     (if falsy_id (venueId candidate) \<or> falsy_id (ev_venueId event) then 0.5
      else if venueId candidate = ev_venueId event then 1.0
      else 0)"

definition calculateSimilarity :: "pipeline_env \<Rightarrow> NormalizedCandidate \<Rightarrow> Event \<Rightarrow> real" where
  "calculateSimilarity env candidate event =
     (let nameScore = jaroWinkler env (normalizedName candidate)
                        (normalizeName (unicode_ops env) (ev_name event));
          locationScore = (if cityId candidate = ev_cityId event then 1.0 else 0)
      in 0.40 * nameScore
         + 0.30 * dateScore env candidate event
         + 0.20 * locationScore
         + 0.10 * venueScore candidate event)"

fun fuzzy_loop ::
  "pipeline_env \<Rightarrow> NormalizedCandidate \<Rightarrow> FingerprintMatch list \<Rightarrow> DeduplicationResult option"
where
  "fuzzy_loop env candidate [] = None"
| "fuzzy_loop env candidate (m # ms) =
     (let event = getEvent env (eventId m);
          similarity = calculateSimilarity env candidate event
      in if similarity \<ge> 0.85
         then Some \<lparr> action = Merge, existingEventId = Some (eventId m),
                     confidence = similarity, matchType = MatchFuzzyName \<rparr>
         else fuzzy_loop env candidate ms)"

fun date_location_loop ::
  "pipeline_env \<Rightarrow> NormalizedCandidate \<Rightarrow> FingerprintMatch list \<Rightarrow> DeduplicationResult option"
where
  "date_location_loop env candidate [] = None"
| "date_location_loop env candidate (m # ms) =
     (let event = getEvent env (eventId m);
          nameSimilarity = jaroWinkler env (normalizedName candidate)
                             (normalizeName (unicode_ops env) (ev_name event))
      in if nameSimilarity \<ge> 0.70
         then Some \<lparr> action = Review, existingEventId = Some (eventId m),
                     confidence = nameSimilarity, matchType = MatchDateLocation \<rparr>
         else date_location_loop env candidate ms)"

definition deduplicateCandidate :: "pipeline_env \<Rightarrow> NormalizedCandidate \<Rightarrow> DeduplicationResult"
where
  "deduplicateCandidate env candidate =
     (case findMatchByFingerprint env (fingerprints candidate) Exact of
        Some exactMatch \<Rightarrow>
          \<lparr> action = Merge, existingEventId = Some (eventId exactMatch),
            confidence = 0.95, matchType = MatchExact \<rparr>
      | None \<Rightarrow>
          (case fuzzy_loop env candidate
                  (findMatchesByFingerprint env (fingerprints candidate) FuzzyName) of
             Some result \<Rightarrow> result
           | None \<Rightarrow>
               (case date_location_loop env candidate
                       (findMatchesByFingerprint env (fingerprints candidate) DateLocation) of
                  Some result \<Rightarrow> result
                | None \<Rightarrow>
                    \<lparr> action = Create, existingEventId = None,
                      confidence = 1.0, matchType = MatchNone \<rparr>)))"

subsection \<open>Confidence score\<close>

text \<open>\<open>a || b\<close> and \<open>filter(Boolean)\<close> on values that are a string or missing: a missing
  value and the empty string are falsy.\<close>

definition truthy :: "jsstring option \<Rightarrow> bool" where
  "truthy v = (v \<noteq> None \<and> v \<noteq> Some [])"

definition js_or :: "jsstring option \<Rightarrow> jsstring option \<Rightarrow> jsstring option" where
  "js_or a b = (if truthy a then a else b)"

definition reported_date :: "EventSource \<Rightarrow> jsstring option" where
  "reported_date s =
     (case es_rawData s of None \<Rightarrow> None | Some rd \<Rightarrow> js_or (rd_start_date rd) (rd_date rd))"

definition reported_venue :: "EventSource \<Rightarrow> jsstring option" where
  "reported_venue s =
     (case es_rawData s of None \<Rightarrow> None | Some rd \<Rightarrow> js_or (rd_venue_name rd) (rd_location rd))"

definition filter_Boolean :: "jsstring option list \<Rightarrow> jsstring list" where
  "filter_Boolean vs = map the (filter truthy vs)"

definition calculateSourceAgreement :: "pipeline_env \<Rightarrow> Event \<Rightarrow> EventSource list \<Rightarrow> real" where
  "calculateSourceAgreement env event sources =
     (if length sources \<le> 1 then 0.5
      else
        (let dates = filter_Boolean (map reported_date sources);
             uniqueDates = remdups (map (normalizeDate env) dates);
             agreements1 = (if length dates > 1 \<and> length uniqueDates = 1 then 1 else 0 :: nat);
             comparisons1 = (if length dates > 1 then 1 else 0 :: nat);
             venues = filter_Boolean (map reported_venue sources);
             normalizedVenues = map (normalizeName (unicode_ops env)) venues;
             venueAgreement = (case normalizedVenues of
                                 [] \<Rightarrow> True
                               | v0 # rest \<Rightarrow> list_all (\<lambda>v. v = v0) normalizedVenues);
             agreements = agreements1 + (if length venues > 1 \<and> venueAgreement then 1 else 0);
             comparisons = comparisons1 + (if length venues > 1 then 1 else 0)
         in if comparisons > 0 then real agreements / real comparisons else 0.5))"

text \<open>The five factors of \<open>calculateConfidenceScore\<close>. \<open>name\<close>, \<open>startDate\<close> and
  \<open>status\<close> are never null in an event.\<close>

definition sourceReliability :: "EventSource list \<Rightarrow> real" where
  "sourceReliability sources =
     (case map es_reliabilityScore sources of [] \<Rightarrow> 0.3 | r # rs \<Rightarrow> fold max rs r)"

definition completeness :: "Event \<Rightarrow> real" where
  "completeness event =
     (let presentRequired = length (filter (\<lambda>b. b) [True, True, ev_cityId event \<noteq> None, True]);
          presentOptional = length (filter (\<lambda>b. b)
             [ev_endDate event \<noteq> None, ev_venueId event \<noteq> None,
              ev_description event \<noteq> None, ev_officialWebsite event \<noteq> None])
      in (real presentRequired / 4) * 0.7 + (real presentOptional / 4) * 0.3)"

definition daysSinceVerification :: "pipeline_env \<Rightarrow> Event \<Rightarrow> real" where
  "daysSinceVerification env event =
     (case ev_lastVerifiedAt event of
        None \<Rightarrow> 365
      | Some d \<Rightarrow> if d = [] then 365 else daysBetween env d (now env))"

definition recency :: "pipeline_env \<Rightarrow> Event \<Rightarrow> real" where
  "recency env event = max 0 (1 - daysSinceVerification env event / 90)"

definition historicalAccuracy :: "pipeline_env \<Rightarrow> EventSource list \<Rightarrow> real" where
  "historicalAccuracy env sources =
     (case getSourceHistoricalAccuracy env
             (case sources of [] \<Rightarrow> None | s # rest \<Rightarrow> Some (es_sourceId s)) of
        None \<Rightarrow> 0.5
      | Some h \<Rightarrow> h)"

definition calculateConfidenceScore :: "pipeline_env \<Rightarrow> nat \<Rightarrow> real" where
  "calculateConfidenceScore env eventId' =
     (let event = getEvent env eventId';
          sources = getEventSources env eventId'
      in 0.35 * sourceReliability sources
         + 0.25 * completeness event
         + 0.20 * calculateSourceAgreement env event sources
         + 0.10 * recency env event
         + 0.10 * historicalAccuracy env sources)"

subsection \<open>Notions used to state the properties of the resolver, and sample data\<close>

text \<open>The weighted similarity and the name similarity of a candidate with the event that a
  fingerprint match points to.\<close>

definition match_similarity ::
  "pipeline_env \<Rightarrow> NormalizedCandidate \<Rightarrow> FingerprintMatch \<Rightarrow> real" where
  "match_similarity env c m = calculateSimilarity env c (getEvent env (eventId m))"

definition match_name_similarity ::
  "pipeline_env \<Rightarrow> NormalizedCandidate \<Rightarrow> FingerprintMatch \<Rightarrow> real" where
  "match_name_similarity env c m =
     jaroWinkler env (normalizedName c)
       (normalizeName (unicode_ops env) (ev_name (getEvent env (eventId m))))"

text \<open>A store with one event (id 10) that one source of reliability 0.8 reported, reached
  through the fuzzy-name fingerprint only; a name similarity that is 1 on equal names and 0
  otherwise; a day difference of 1.\<close>

definition example_stored_event :: Event where
  "example_stored_event =
     \<lparr> ev_name = js ''Festival Gnaoua'', ev_startDate = js ''2025-06-26'',
       ev_endDate = None, ev_cityId = Some 7, ev_venueId = Some 3,
       ev_status = js ''announced'', ev_description = None, ev_officialWebsite = None,
       ev_lastVerifiedAt = Some (js ''2025-06-26'') \<rparr>"

definition example_candidate :: NormalizedCandidate where
  "example_candidate =
     \<lparr> rawName = js ''Gnaoua 2025'', sourceId = 1, externalId = js ''EB-123'',
       sourceUrl = js ''https://example.org/e/123'', normalizedName = js ''gnaoua'',
       startDate = js ''2025-06-26'', endDate = None, cityId = Some 7, venueId = None,
       fingerprints = [] \<rparr>"

definition example_env :: pipeline_env where
  "example_env =
     \<lparr> unicode_ops = basic_latin,
       jaroWinkler = (\<lambda>a b. if a = b then 1 else 0),
       daysBetween = (\<lambda>a b. 1),
       normalizeDate = (\<lambda>d. d),
       findMatchByFingerprint = (\<lambda>fps t. None),
       findMatchesByFingerprint = (\<lambda>fps t. if t = FuzzyName then [\<lparr> eventId = 10 \<rparr>] else []),
       getEvent = (\<lambda>i. example_stored_event),
       getEventSources =
         (\<lambda>i. [\<lparr> es_sourceId = 1, es_reliabilityScore = 0.8, es_rawData = None \<rparr>]),
       getSourceHistoricalAccuracy = (\<lambda>i. None),
       now = js ''2025-06-27'' \<rparr>"

text \<open>A store whose event 10 is complete, was reported by two sources of reliability 1 that
  agree on its date, has a first source of accuracy 1, and carries a verification stamp one
  day later than the clock reading, so that the day difference is -1.\<close>

definition skewed_event :: Event where
  "skewed_event =
     \<lparr> ev_name = js ''Festival Gnaoua'', ev_startDate = js ''2025-06-26'',
       ev_endDate = Some (js ''2025-06-29''), ev_cityId = Some 7, ev_venueId = Some 3,
       ev_status = js ''confirmed'', ev_description = Some (js ''Gnawa music''),
       ev_officialWebsite = Some (js ''https://festival-gnaoua.net''),
       ev_lastVerifiedAt = Some (js ''2025-06-28'') \<rparr>"

definition skewed_source :: "nat \<Rightarrow> EventSource" where
  "skewed_source n =
     \<lparr> es_sourceId = n, es_reliabilityScore = 1,
       es_rawData = Some \<lparr> rd_start_date = Some (js ''2025-06-26''), rd_date = None,
                          rd_venue_name = None, rd_location = None \<rparr> \<rparr>"

definition skewed_env :: pipeline_env where
  "skewed_env =
     example_env\<lparr> daysBetween := (\<lambda>a b. - 1),
                  getEvent := (\<lambda>i. skewed_event),
                  getEventSources := (\<lambda>i. [skewed_source 1, skewed_source 2]),
                  getSourceHistoricalAccuracy := (\<lambda>i. Some 1) \<rparr>"

text \<open>The sample store with the reliability of its source recorded as 2, and with the
  accuracy of that source recorded as a percentage, 80.\<close>

definition overrated_env :: pipeline_env where
  "overrated_env =
     example_env\<lparr> getEventSources :=
       (\<lambda>i. [\<lparr> es_sourceId = 1, es_reliabilityScore = 2, es_rawData = None \<rparr>]) \<rparr>"

definition percent_env :: pipeline_env where
  "percent_env = example_env\<lparr> getSourceHistoricalAccuracy := (\<lambda>i. Some 80) \<rparr>"

subsection \<open>Notions used to state the properties of the normalizer and the matcher\<close>

text \<open>No two white-space characters in a row.\<close>

fun single_spaced :: "jsstring \<Rightarrow> bool" where
  "single_spaced [] = True"
| "single_spaced [c] = True"
| "single_spaced (c # d # cs) = (\<not> (is_space c \<and> is_space d) \<and> single_spaced (d # cs))"

text \<open>The shape of a normalized name: only \<open>a-z\<close>, \<open>0-9\<close> and single spaces, none of them
  at either end.\<close>

definition normal_form :: "jsstring \<Rightarrow> bool" where
  "normal_form t =
     (list_all clean_char t \<and> single_spaced t
      \<and> (t = [] \<or> (\<not> is_space (hd t) \<and> \<not> is_space (last t))))"

text \<open>A city matches a normalized input exactly when one of its two normalized names is the
  input.\<close>

definition exact_city :: "unicode \<Rightarrow> jsstring \<Rightarrow> City \<Rightarrow> bool" where
  "exact_city U n c =
     (normalizeName U (city_name c) = n
      \<or> (\<exists>fr. city_name_fr c = Some fr \<and> normalizeName U fr = n))"

section \<open>Search index synchronization\<close>

subsection \<open>Rows and documents\<close>

text \<open>
  A \<open>Date\<close> object with the three readings the transformation takes, and \<open>new Date(s)\<close>
  as a parameter \<open>newDate\<close> of the functions that parse dates. A member of a row that a
  query did not select is \<open>Undefined\<close>.
\<close>

record js_date =
  getTime :: int
  getFullYear :: int
  getMonth :: int

datatype 'a js_member = Undefined | Null | Value 'a


record EventRow =
  row_id :: nat
  row_name :: jsstring
  row_slug :: jsstring
  row_event_type :: jsstring
  row_description :: "jsstring option"
  row_start_date :: jsstring
  row_end_date :: "jsstring option"
  row_city_id :: nat
  row_city_name :: jsstring
  row_city_slug :: jsstring
  row_region_id :: nat
  row_region_name :: jsstring
  row_region_slug :: jsstring
  row_venue_name :: "jsstring option"
  row_venue_slug :: "jsstring option"
  row_geo_lat :: "real js_member"
  row_geo_lng :: "real js_member"
  row_organizer_name :: "jsstring option"
  row_official_website :: "jsstring option"
  row_status :: jsstring
  row_confidence_score :: real
  row_is_verified :: bool
  row_is_pinned :: bool
  row_cultural_significance :: int
  row_updated_at :: js_date





subsection \<open>The authoritative store\<close>

text \<open>The tables the queries read, with the columns they read.\<close>

record db_event =
  e_id :: nat
  e_name :: jsstring
  e_slug :: jsstring
  e_event_type :: jsstring
  e_description :: "jsstring option"
  e_start_date :: jsstring
  e_end_date :: "jsstring option"
  e_status :: jsstring
  e_confidence_score :: real
  e_is_verified :: bool
  e_is_pinned :: bool
  e_cultural_significance :: int
  e_official_website :: "jsstring option"
  e_updated_at :: js_date
  e_city_id :: nat
  e_region_id :: nat
  e_venue_id :: "nat option"
  e_organizer_id :: "nat option"

record db_city =
  c_id :: nat
  c_name :: jsstring
  c_slug :: jsstring

record db_region =
  r_id :: nat
  r_name :: jsstring
  r_slug :: jsstring

record db_venue =
  v_id :: nat
  v_name :: jsstring
  v_slug :: jsstring

record db_organizer =
  o_id :: nat
  o_name :: jsstring

record db_genre =
  g_id :: nat
  g_name :: jsstring
  g_slug :: jsstring

record db_artist =
  a_id :: nat
  a_name :: jsstring
  a_slug :: jsstring

record db_event_genre =
  eg_event_id :: nat
  eg_genre_id :: nat

record db_event_artist =
  ea_event_id :: nat
  ea_artist_id :: nat

record db_event_ticket_url =
  t_id :: nat
  t_event_id :: nat

record database =
  tbl_events :: "db_event list"
  tbl_cities :: "db_city list"
  tbl_regions :: "db_region list"
  tbl_venues :: "db_venue list"
  tbl_organizers :: "db_organizer list"
  tbl_genres :: "db_genre list"
  tbl_event_genres :: "db_event_genre list"
  tbl_artists :: "db_artist list"
  tbl_event_artists :: "db_event_artist list"
  tbl_event_ticket_urls :: "db_event_ticket_url list"

text \<open>
  The select of \<open>fullReindex\<close> and \<open>indexEvent\<close>: events inner-joined with cities and
  regions, left-joined with venues and organizers. An inner join yields one row per
  matching pair; a left join yields one row with nulls when nothing matches. The columns
  \<open>geo_lat\<close> and \<open>geo_lng\<close> are not selected.
\<close>

definition left_join :: "('a \<Rightarrow> bool) \<Rightarrow> 'a list \<Rightarrow> 'a option list" where
  "left_join p xs = (case filter p xs of [] \<Rightarrow> [None] | m # ms \<Rightarrow> map Some (m # ms))"

definition make_row ::
  "db_event \<Rightarrow> db_city \<Rightarrow> db_region \<Rightarrow> db_venue option \<Rightarrow> db_organizer option \<Rightarrow> EventRow"
where
  "make_row e c r v org =
     \<lparr> row_id = e_id e,
       row_name = e_name e,
       row_slug = e_slug e,
       row_event_type = e_event_type e,
       row_description = e_description e,
       row_start_date = e_start_date e,
       row_end_date = e_end_date e,
       row_city_id = c_id c,
       row_city_name = c_name c,
       row_city_slug = c_slug c,
       row_region_id = r_id r,
       row_region_name = r_name r,
       row_region_slug = r_slug r,
       row_venue_name = map_option v_name v,
       row_venue_slug = map_option v_slug v,
       row_geo_lat = Undefined,
       row_geo_lng = Undefined,
       row_organizer_name = map_option o_name org,
       row_official_website = e_official_website e,
       row_status = e_status e,
       row_confidence_score = e_confidence_score e,
       row_is_verified = e_is_verified e,
       row_is_pinned = e_is_pinned e,
       row_cultural_significance = e_cultural_significance e,
       row_updated_at = e_updated_at e \<rparr>"

definition joined_rows :: "database \<Rightarrow> db_event list \<Rightarrow> EventRow list" where
  "joined_rows db es =
     [make_row e c r v org.
        e \<leftarrow> es,
        c \<leftarrow> filter (\<lambda>c. e_city_id e = c_id c) (tbl_cities db),
        r \<leftarrow> filter (\<lambda>r. e_region_id e = r_id r) (tbl_regions db),
        v \<leftarrow> left_join (\<lambda>v. e_venue_id e = Some (v_id v)) (tbl_venues db),
        org \<leftarrow> left_join (\<lambda>x. e_organizer_id e = Some (o_id x)) (tbl_organizers db)]"

definition indexable_statuses :: "jsstring list" where
  "indexable_statuses = [js ''announced'', js ''confirmed'']"

definition select_indexable_events :: "database \<Rightarrow> EventRow list" where
  "select_indexable_events db =
     joined_rows db (filter (\<lambda>e. e_status e \<in> set indexable_statuses) (tbl_events db))"









subsection \<open>The search engine\<close>









subsection \<open>Notions used to state the properties of the synchronizer\<close>







subsection \<open>Sample data of the synchronizer\<close>


definition example_db_event :: "nat \<Rightarrow> jsstring \<Rightarrow> db_event" where
  "example_db_event i st =
     \<lparr> e_id = i, e_name = js ''Festival Gnaoua'', e_slug = js ''festival-gnaoua'',
       e_event_type = js ''festival'', e_description = None,
       e_start_date = js ''2025-06-26'', e_end_date = None, e_status = st,
       e_confidence_score = 0.7, e_is_verified = True, e_is_pinned = False,
       e_cultural_significance = 9, e_official_website = None,
       e_updated_at = \<lparr> getTime = 1750896000000, getFullYear = 2025, getMonth = 5 \<rparr>,
       e_city_id = 7, e_region_id = 2, e_venue_id = None, e_organizer_id = None \<rparr>"

definition example_db :: database where
  "example_db =
     \<lparr> tbl_events = [example_db_event 1 (js ''confirmed''),
                     example_db_event 2 (js ''cancelled''),
                     example_db_event 3 (js ''announced'')],
       tbl_cities = [\<lparr> c_id = 7, c_name = js ''Essaouira'', c_slug = js ''essaouira'' \<rparr>],
       tbl_regions = [\<lparr> r_id = 2, r_name = js ''Marrakech-Safi'', r_slug = js ''marrakech-safi'' \<rparr>],
       tbl_venues = [], tbl_organizers = [], tbl_genres = [], tbl_event_genres = [],
       tbl_artists = [], tbl_event_artists = [], tbl_event_ticket_urls = [] \<rparr>"






section \<open>Properties of the data client\<close>

subsection \<open>Event types\<close>

lemma EventType_literal_range: "range EventType_literal = spec_event_types"
proof -
  have "UNIV = {Festival, Concert, Showcase, Ritual, Conference}"
    using EventType.exhaust by auto
  then have "range EventType_literal =
      EventType_literal ` {Festival, Concert, Showcase, Ritual, Conference}"
    by simp
  then show ?thesis by (simp add: spec_event_types_def insert_commute)
qed

lemma TaxonomyEventType_value_range:
  "range TaxonomyEventType_value =
     {js ''festival'', js ''concert'', js ''moussem'', js ''lila'', js ''showcase'',
      js ''gathering''}"
proof -
  have "UNIV = {FESTIVAL, CONCERT, MOUSSEM, LILA, SHOWCASE, GATHERING}"
    using TaxonomyEventType.exhaust by auto
  then have "range TaxonomyEventType_value =
      TaxonomyEventType_value ` {FESTIVAL, CONCERT, MOUSSEM, LILA, SHOWCASE, GATHERING}"
    by simp
  then show ?thesis by (simp add: insert_commute)
qed

lemma map_of_category_map_values:
  "map_of category_map k = Some v \<Longrightarrow>
     v \<in> {js ''festival'', js ''ritual'', js ''showcase'', js ''conference''}"
  by (auto simp: category_map_def split: if_splits)

lemma categoryToEventType_own_keys:
  assumes "\<forall>c'. c = Some c' \<longrightarrow> toLowerCase U c' \<notin> set object_prototype_keys"
  shows "\<exists>v \<in> {js ''festival'', js ''ritual'', js ''showcase'', js ''conference''}.
           categoryToEventType U c = JString v"
  using assms
  by (auto simp: categoryToEventType_def Let_def split: option.splits
      dest: map_of_category_map_values)

lemma categoryToEventType_default:
  assumes "map_of category_map (toLowerCase U c) = None"
    and "toLowerCase U c \<notin> set object_prototype_keys"
  shows "categoryToEventType U (Some c) = JString (js ''festival'')"
  using assms by (simp add: categoryToEventType_def)

text \<open>
  C8, as the claim has it: all three produce only members of the fixed set. The members of
  the taxonomy module's enum are not all in the fixed set: the enum has moussem, lila and
  gathering, and lacks ritual and conference. And for the category "constructor" the
  lookup in the object literal finds the member inherited from \<open>Object.prototype\<close>, which
  \<open>categoryToEventType\<close> returns instead of an event type.
\<close>

theorem taxonomy_event_type_outside_fixed_set:
  "TaxonomyEventType_value MOUSSEM \<notin> spec_event_types
   \<and> categoryToEventType basic_latin (Some (js ''constructor''))
       = JInherited (js ''constructor'')"
  by (simp add: spec_event_types_def js_def categoryToEventType_def basic_latin_def
      ascii_lower_def category_map_def object_prototype_keys_def)

text \<open>
  C8, amended. The literals of the canonical union \<open>EventType\<close> are exactly the fixed set
  festival, concert, showcase, ritual, conference. \<open>categoryToEventType\<close> maps a missing
  category, and every category whose lowercased form is not the name of a member inherited
  from \<open>Object.prototype\<close>, to one of festival, ritual, showcase, conference (all in the
  fixed set), and to festival when the lowercased category is not a key of its table. The
  values of the taxonomy module's enum are festival, concert, moussem, lila, showcase,
  gathering.
\<close>

theorem event_type_sets:
  "range EventType_literal = spec_event_types
   \<and> {js ''festival'', js ''ritual'', js ''showcase'', js ''conference''} \<subseteq> spec_event_types
   \<and> ((\<forall>c'. c = Some c' \<longrightarrow> toLowerCase U c' \<notin> set object_prototype_keys) \<longrightarrow>
        (\<exists>v \<in> {js ''festival'', js ''ritual'', js ''showcase'', js ''conference''}.
           categoryToEventType U c = JString v))
   \<and> ((\<forall>c'. c = Some c' \<longrightarrow> toLowerCase U c' \<notin> set object_prototype_keys
                          \<and> map_of category_map (toLowerCase U c') = None) \<longrightarrow>
        categoryToEventType U c = JString (js ''festival''))
   \<and> range TaxonomyEventType_value =
        {js ''festival'', js ''concert'', js ''moussem'', js ''lila'', js ''showcase'',
         js ''gathering''}"
proof -
  have sub: "{js ''festival'', js ''ritual'', js ''showcase'', js ''conference''}
      \<subseteq> spec_event_types"
    by (simp add: spec_event_types_def)
  have dflt: "(\<forall>c'. c = Some c' \<longrightarrow> toLowerCase U c' \<notin> set object_prototype_keys
                          \<and> map_of category_map (toLowerCase U c') = None) \<longrightarrow>
        categoryToEventType U c = JString (js ''festival'')"
    by (cases c) (auto simp: categoryToEventType_def)
  show ?thesis
    using EventType_literal_range TaxonomyEventType_value_range sub dflt
      categoryToEventType_own_keys[of c U]
    by blast
qed

theorem event_type_sets_witness:
  "toLowerCase basic_latin (js ''Theatre'') \<notin> set object_prototype_keys
   \<and> categoryToEventType basic_latin (Some (js ''Theatre'')) = JString (js ''showcase'')
   \<and> toLowerCase basic_latin (js ''Circus'') \<notin> set object_prototype_keys
   \<and> map_of category_map (toLowerCase basic_latin (js ''Circus'')) = None
   \<and> categoryToEventType basic_latin (Some (js ''Circus'')) = JString (js ''festival'')"
proof -
  have k1: "toLowerCase basic_latin (js ''Theatre'') \<notin> set object_prototype_keys"
    by (simp add: basic_latin_def js_def ascii_lower_def object_prototype_keys_def)
  have k2: "toLowerCase basic_latin (js ''Circus'') \<notin> set object_prototype_keys"
    by (simp add: basic_latin_def js_def ascii_lower_def object_prototype_keys_def)
  have m2: "map_of category_map (toLowerCase basic_latin (js ''Circus'')) = None"
    by (simp add: basic_latin_def js_def ascii_lower_def category_map_def)
  have v1: "categoryToEventType basic_latin (Some (js ''Theatre'')) = JString (js ''showcase'')"
    by (simp add: categoryToEventType_def basic_latin_def js_def ascii_lower_def
        category_map_def)
  have "categoryToEventType basic_latin (Some (js ''Circus'')) = JString (js ''festival'')"
    using event_type_sets[of "Some (js ''Circus'')" basic_latin] k2 m2 by simp
  with k1 k2 m2 v1 show ?thesis by simp
qed

subsection \<open>The cached fetch\<close>

lemma fetch_try_failed:
  "query_failed f out \<Longrightarrow> \<exists>e. fetch_try f out now2 st = (Inl e, st)"
  by (auto simp: query_failed_def fetch_try_def isl_def
      split: query_outcome.splits option.splits sum.splits)

lemma fetch_try_ok:
  "\<not> query_failed f out \<Longrightarrow> \<exists>evs st'. fetch_try f out now2 st = (Inr evs, st')"
  by (auto simp: query_failed_def fetch_try_def isl_def
      split: query_outcome.splits option.splits sum.splits)

lemma fetch_catch_Inr: "\<exists>evs. fetch_catch e st = (Inr evs, st)"
  by (simp add: fetch_catch_def split: option.splits)

lemma fetchEvents_never_throws: "\<exists>evs st'. fetchEvents f now1 out now2 st = (Inr evs, st')"
proof (cases "query_failed f out")
  case True
  then obtain e where "fetch_try f out now2 st = (Inl e, st)"
    using fetch_try_failed by blast
  then show ?thesis using fetch_catch_Inr[of e st]
    by (auto simp: fetchEvents_def split: option.splits)
next
  case False
  then obtain evs st' where "fetch_try f out now2 st = (Inr evs, st')"
    using fetch_try_ok by blast
  then show ?thesis
    by (auto simp: fetchEvents_def split: option.splits)
qed

lemma fetchEvents_on_error:
  assumes "cachedEvents st = None \<or> CACHE_TTL \<le> now1 - cacheTimestamp st"
    and "query_failed f out"
  shows "fetchEvents f now1 out now2 st =
           (Inr (case cachedEvents st of Some evs \<Rightarrow> evs | None \<Rightarrow> []), st)"
proof -
  obtain e where "fetch_try f out now2 st = (Inl e, st)"
    using assms(2) fetch_try_failed by blast
  with assms(1) show ?thesis
    by (auto simp: fetchEvents_def fetch_catch_def split: option.splits)
qed

lemma fetchEvents_fresh:
  assumes "cachedEvents st = Some evs" and "now1 - cacheTimestamp st < CACHE_TTL"
  shows "fetchEvents f now1 out now2 st = (Inr evs, st)"
  using assms by (simp add: fetchEvents_def)

lemma fetchEvents_on_success:
  assumes "cachedEvents st = None \<or> CACHE_TTL \<le> now1 - cacheTimestamp st"
    and "out = QueryResult d None"
    and "map_rows f (case d of None \<Rightarrow> [] | Some r \<Rightarrow> r) = Inr evs"
  shows "fetchEvents f now1 out now2 st =
           (Inr evs, st\<lparr> cachedEvents := Some evs, cacheTimestamp := now2 \<rparr>)"
  using assms by (auto simp: fetchEvents_def fetch_try_def split: option.splits)

text \<open>
  C9. \<open>fetchEvents\<close> always returns a list and never throws, whatever the store query and
  the row conversion do. When no fresh cached list exists and the query fails, it returns
  the cached list if there is one and the empty list otherwise, and leaves the cache as it
  was. When the query succeeds, it returns the converted rows and caches them with the
  clock reading; every later call made less than 5 minutes (300000 ms) after that reading
  returns the same list from the cache, whatever the store would answer.
\<close>

theorem fetchEvents_total:
  "(\<exists>evs st'. fetchEvents f now1 out now2 st = (Inr evs, st'))
   \<and> ((cachedEvents st = None \<or> CACHE_TTL \<le> now1 - cacheTimestamp st) \<and> query_failed f out \<longrightarrow>
        fetchEvents f now1 out now2 st =
          (Inr (case cachedEvents st of Some evs \<Rightarrow> evs | None \<Rightarrow> []), st))
   \<and> ((cachedEvents st = None \<or> CACHE_TTL \<le> now1 - cacheTimestamp st)
        \<and> out = QueryResult d None
        \<and> map_rows f (case d of None \<Rightarrow> [] | Some r \<Rightarrow> r) = Inr events \<longrightarrow>
        fetchEvents f now1 out now2 st =
          (Inr events, st\<lparr> cachedEvents := Some events, cacheTimestamp := now2 \<rparr>)
        \<and> (\<forall>later out' now2'. later - now2 < 5 * 60 * 1000 \<longrightarrow>
              fetchEvents f later out' now2'
                (st\<lparr> cachedEvents := Some events, cacheTimestamp := now2 \<rparr>) =
              (Inr events, st\<lparr> cachedEvents := Some events, cacheTimestamp := now2 \<rparr>)))"
proof -
  have a: "\<exists>evs st'. fetchEvents f now1 out now2 st = (Inr evs, st')"
    by (rule fetchEvents_never_throws)
  have b: "(cachedEvents st = None \<or> CACHE_TTL \<le> now1 - cacheTimestamp st)
      \<and> query_failed f out \<longrightarrow>
        fetchEvents f now1 out now2 st =
          (Inr (case cachedEvents st of Some evs \<Rightarrow> evs | None \<Rightarrow> []), st)"
    using fetchEvents_on_error by blast
  have c: "\<forall>later out' now2'. later - now2 < 5 * 60 * 1000 \<longrightarrow>
              fetchEvents f later out' now2'
                (st\<lparr> cachedEvents := Some events, cacheTimestamp := now2 \<rparr>) =
              (Inr events, st\<lparr> cachedEvents := Some events, cacheTimestamp := now2 \<rparr>)"
    by (simp add: fetchEvents_fresh CACHE_TTL_def)
  from a b c fetchEvents_on_success[of st now1 out d f events now2] show ?thesis
    by blast
qed

theorem fetchEvents_total_witness:
  "query_failed example_rowToEvent (QueryResult (Some [1, 0, 3]) None)
   \<and> fetchEvents example_rowToEvent 1000 (QueryResult (Some [1, 0, 3]) None) 1001 initial_cache
       = (Inr [], initial_cache)
   \<and> map_rows example_rowToEvent [1, 2, 3] = Inr [1, 2, 3]
   \<and> fetchEvents example_rowToEvent 1000 (QueryResult (Some [1, 2, 3]) None) 1001 initial_cache
       = (Inr [1, 2, 3], \<lparr> cachedEvents = Some [1, 2, 3], cacheTimestamp = 1001 \<rparr>)
   \<and> fetchEvents example_rowToEvent 301000 (QueryThrows (Thrown (js ''offline''))) 301000
        \<lparr> cachedEvents = Some [1, 2, 3], cacheTimestamp = 1001 \<rparr>
       = (Inr [1, 2, 3], \<lparr> cachedEvents = Some [1, 2, 3], cacheTimestamp = 1001 \<rparr>)"
proof -
  have q: "query_failed example_rowToEvent (QueryResult (Some [1, 0, 3]) None)"
    by (simp add: query_failed_def example_rowToEvent_def)
  have n: "cachedEvents (initial_cache :: nat cache) = None"
    by (simp add: initial_cache_def)
  have m: "map_rows example_rowToEvent [1, 2, 3] = Inr [1, 2, 3]"
    by (simp add: example_rowToEvent_def)
  have u: "(initial_cache :: nat cache)\<lparr> cachedEvents := Some [1, 2, 3], cacheTimestamp := 1001 \<rparr>
      = \<lparr> cachedEvents = Some [1, 2, 3], cacheTimestamp = 1001 \<rparr>"
    by (simp add: initial_cache_def)
  have t: "(301000::int) - 1001 < 5 * 60 * 1000" by simp
  note w1 = fetchEvents_total[of example_rowToEvent 1000 "QueryResult (Some [1, 0, 3]) None"
      1001 initial_cache "Some [1, 0, 3]" "[]"]
  note w2 = fetchEvents_total[of example_rowToEvent 1000 "QueryResult (Some [1, 2, 3]) None"
      1001 initial_cache "Some [1, 2, 3]" "[1, 2, 3]"]
  have r1: "fetchEvents example_rowToEvent 1000 (QueryResult (Some [1, 0, 3]) None) 1001
      initial_cache = (Inr [], initial_cache)"
    using w1 q n by simp
  have r2: "fetchEvents example_rowToEvent 1000 (QueryResult (Some [1, 2, 3]) None) 1001
      initial_cache = (Inr [1, 2, 3], \<lparr> cachedEvents = Some [1, 2, 3], cacheTimestamp = 1001 \<rparr>)"
    using w2 n m u by simp
  have r3: "fetchEvents example_rowToEvent 301000 (QueryThrows (Thrown (js ''offline''))) 301000
        \<lparr> cachedEvents = Some [1, 2, 3], cacheTimestamp = 1001 \<rparr>
       = (Inr [1, 2, 3], \<lparr> cachedEvents = Some [1, 2, 3], cacheTimestamp = 1001 \<rparr>)"
  proof -
    have "fetchEvents example_rowToEvent 301000 (QueryThrows (Thrown (js ''offline''))) 301000
        (initial_cache\<lparr> cachedEvents := Some [1, 2, 3], cacheTimestamp := 1001 \<rparr>)
       = (Inr [1, 2, 3],
          initial_cache\<lparr> cachedEvents := Some [1, 2, 3], cacheTimestamp := 1001 \<rparr>)"
    proof -
      have m': "map_rows example_rowToEvent (case Some [1, 2, 3] of None \<Rightarrow> [] | Some r \<Rightarrow> r)
          = Inr [1, 2, 3]"
        using m by simp
      from w2 n m' t show ?thesis by blast
    qed
    then show ?thesis by (simp only: u)
  qed
  from q r1 m r2 r3 show ?thesis by simp
qed

subsection \<open>Upcoming events\<close>

lemma mset_sort_insert: "mset (sort_insert cmp x ys) = add_mset x (mset ys)"
  by (induction ys) auto

lemma mset_Array_sort: "mset (Array_sort cmp xs) = mset xs"
  by (induction xs) (auto simp: Array_sort_def mset_sort_insert)

lemma set_sort_insert: "set (sort_insert cmp x ys) = insert x (set ys)"
  by (induction ys) auto

lemma sorted_sort_insert:
  assumes total: "\<And>a b. cmp a b \<le> 0 \<or> cmp b a \<le> 0"
    and trans: "\<And>a b c. cmp a b \<le> 0 \<Longrightarrow> cmp b c \<le> 0 \<Longrightarrow> cmp a c \<le> 0"
    and "sorted_wrt (\<lambda>a b. cmp a b \<le> 0) ys"
  shows "sorted_wrt (\<lambda>a b. cmp a b \<le> 0) (sort_insert cmp x ys)"
  using assms(3)
proof (induction ys)
  case Nil
  then show ?case by simp
next
  case (Cons y ys)
  show ?case
  proof (cases "cmp x y \<le> 0")
    case True
    with Cons.prems show ?thesis using trans by auto
  next
    case False
    then have "cmp y x \<le> 0" using total by blast
    with False Cons show ?thesis by (auto simp: set_sort_insert)
  qed
qed

lemma sorted_Array_sort:
  assumes total: "\<And>a b. cmp a b \<le> 0 \<or> cmp b a \<le> 0"
    and trans: "\<And>a b c. cmp a b \<le> 0 \<Longrightarrow> cmp b c \<le> 0 \<Longrightarrow> cmp a c \<le> 0"
  shows "sorted_wrt (\<lambda>a b. cmp a b \<le> 0) (Array_sort cmp xs)"
proof (induction xs)
  case Nil
  then show ?case by (simp add: Array_sort_def)
next
  case (Cons x xs)
  have "Array_sort cmp (x # xs) = sort_insert cmp x (Array_sort cmp xs)"
    by (simp add: Array_sort_def)
  with Cons sorted_sort_insert[of cmp "Array_sort cmp xs" x, OF total trans] show ?case
    by simp
qed

lemma js_lt_irrefl: "\<not> js_lt a a"
  by (induction a) auto

lemma js_lt_trans: "js_lt a b \<Longrightarrow> js_lt b c \<Longrightarrow> js_lt a c"
  by (induction a b arbitrary: c rule: js_lt.induct; case_tac c; auto)

lemma js_lt_total: "js_lt a b \<or> a = b \<or> js_lt b a"
  by (induction a b rule: js_lt.induct) auto

lemma js_lt_asym: "js_lt a b \<Longrightarrow> \<not> js_lt b a"
  using js_lt_trans js_lt_irrefl by blast

lemma js_ge_Nil: "js_ge [] today \<longleftrightarrow> today = []"
  by (cases today) (auto simp: js_ge_def)

lemma codeunit_compare_le: "codeunit_compare a b \<le> 0 \<longleftrightarrow> \<not> js_lt b a"
  by (auto simp: codeunit_compare_def dest: js_lt_asym)

lemma codeunit_compare_total: "codeunit_compare a b \<le> 0 \<or> codeunit_compare b a \<le> 0"
  unfolding codeunit_compare_le using js_lt_asym by blast

lemma codeunit_compare_trans:
  "codeunit_compare a b \<le> 0 \<and> codeunit_compare b c \<le> 0 \<longrightarrow> codeunit_compare a c \<le> 0"
  unfolding codeunit_compare_le using js_lt_total[of a b] js_lt_trans[of c a b] by blast

text \<open>
  C10, as the claim has it: an event whose start date is malformed is said to be excluded.
  The start date TBD compares greater than 2026-11-03 (T is the code unit 84, 2 is 50),
  so the event is returned as upcoming.
\<close>

theorem getUpcomingEvents_malformed_included:
  "getUpcomingEvents (js ''2026-11-03'') codeunit_compare
     [example_event\<lparr> start_date := js ''TBD'' \<rparr>]
   = [example_event\<lparr> start_date := js ''TBD'' \<rparr>]"
  by (simp add: getUpcomingEvents_def Array_sort_def js_ge_def js_def)

text \<open>
  C10, amended. For every list of events and every consistent comparison \<open>localeCompare\<close>
  (total and transitive), \<open>getUpcomingEvents\<close> returns exactly the events whose start date
  is not smaller than today's date in the comparison of strings by code units, each as
  often as it occurs in the input, in ascending order of start date under
  \<open>localeCompare\<close>. An event with an empty start date is excluded (today's date is never
  empty); a malformed start date is excluded only when it compares below today's date.
\<close>

theorem getUpcomingEvents_filter_sorted:
  assumes total: "\<forall>a b. localeCompare a b \<le> 0 \<or> localeCompare b a \<le> 0"
    and trans: "\<forall>a b c. localeCompare a b \<le> 0 \<and> localeCompare b c \<le> 0
                  \<longrightarrow> localeCompare a c \<le> 0"
  shows "mset (getUpcomingEvents today localeCompare events)
           = mset (filter (\<lambda>e. \<not> js_lt (start_date e) today) events)
     \<and> sorted_wrt (\<lambda>a b. localeCompare (start_date a) (start_date b) \<le> 0)
          (getUpcomingEvents today localeCompare events)
     \<and> (today \<noteq> [] \<longrightarrow>
          (\<forall>e \<in> set (getUpcomingEvents today localeCompare events). start_date e \<noteq> []))"
proof -
  let ?c = "\<lambda>a b. localeCompare (start_date a) (start_date b)"
  let ?f = "filter (\<lambda>e. \<not> js_lt (start_date e) today) events"
  let ?r = "getUpcomingEvents today localeCompare events"
  have m: "mset ?r = mset ?f"
    by (simp add: getUpcomingEvents_def mset_Array_sort js_ge_def)
  have t1: "\<And>a b. ?c a b \<le> 0 \<or> ?c b a \<le> 0" using total by blast
  have t2: "\<And>a b c. ?c a b \<le> 0 \<Longrightarrow> ?c b c \<le> 0 \<Longrightarrow> ?c a c \<le> 0" using trans by blast
  have s: "sorted_wrt (\<lambda>a b. ?c a b \<le> 0) ?r"
    unfolding getUpcomingEvents_def by (rule sorted_Array_sort[of ?c, OF t1 t2])
  have "set ?r = set ?f"
    using m by (metis set_mset_mset)
  then have e: "today \<noteq> [] \<longrightarrow> (\<forall>e \<in> set ?r. start_date e \<noteq> [])"
    using js_ge_Nil[of today] by (auto simp: js_ge_def)
  from m s e show ?thesis by blast
qed

theorem getUpcomingEvents_filter_sorted_witness:
  "js ''2025-07-01'' \<noteq> []
   \<and> getUpcomingEvents (js ''2025-07-01'') codeunit_compare
        [example_event\<lparr> start_date := js ''2025-12-26'' \<rparr>,
         example_event\<lparr> start_date := js ''2025-06-26'' \<rparr>,
         example_event\<lparr> start_date := js ''2025-07-10'' \<rparr>,
         example_event\<lparr> start_date := [] \<rparr>]
       = [example_event\<lparr> start_date := js ''2025-07-10'' \<rparr>,
          example_event\<lparr> start_date := js ''2025-12-26'' \<rparr>]
   \<and> sorted_wrt (\<lambda>a b. codeunit_compare (start_date a) (start_date b) \<le> 0)
        (getUpcomingEvents (js ''2025-07-01'') codeunit_compare
          [example_event\<lparr> start_date := js ''2025-12-26'' \<rparr>,
           example_event\<lparr> start_date := js ''2025-06-26'' \<rparr>,
           example_event\<lparr> start_date := js ''2025-07-10'' \<rparr>,
           example_event\<lparr> start_date := [] \<rparr>])"
proof -
  have total: "\<forall>a b. codeunit_compare a b \<le> 0 \<or> codeunit_compare b a \<le> 0"
    using codeunit_compare_total by blast
  have trans: "\<forall>a b c. codeunit_compare a b \<le> 0 \<and> codeunit_compare b c \<le> 0
      \<longrightarrow> codeunit_compare a c \<le> 0"
    using codeunit_compare_trans by blast
  have ne: "js ''2025-07-01'' \<noteq> []" by (simp add: js_def)
  have v: "getUpcomingEvents (js ''2025-07-01'') codeunit_compare
        [example_event\<lparr> start_date := js ''2025-12-26'' \<rparr>,
         example_event\<lparr> start_date := js ''2025-06-26'' \<rparr>,
         example_event\<lparr> start_date := js ''2025-07-10'' \<rparr>,
         example_event\<lparr> start_date := [] \<rparr>]
       = [example_event\<lparr> start_date := js ''2025-07-10'' \<rparr>,
          example_event\<lparr> start_date := js ''2025-12-26'' \<rparr>]"
    by (simp add: getUpcomingEvents_def Array_sort_def js_ge_def js_def codeunit_compare_def)
  from getUpcomingEvents_filter_sorted[OF total trans] ne v show ?thesis
    by blast
qed

section \<open>Properties of the ingestion pipeline\<close>

subsection \<open>Name normalization\<close>

lemma clean_not_mark: "clean_char c \<Longrightarrow> \<not> is_combining_mark c"
  by (auto simp: clean_char_def is_combining_mark_def is_lower_alpha_def is_digit_def)

lemma clean_keep: "clean_char c \<Longrightarrow> is_lower_alpha c \<or> is_digit c \<or> is_space c"
  by (auto simp: clean_char_def is_space_def)

lemma clean_space: "clean_char c \<Longrightarrow> is_space c \<Longrightarrow> c = 32"
  by (auto simp: clean_char_def is_space_def is_lower_alpha_def is_digit_def)

lemma keep_clean: "is_lower_alpha c \<or> is_digit c \<or> is_space c \<Longrightarrow> \<not> is_space c \<Longrightarrow> clean_char c"
  by (auto simp: clean_char_def)

lemma clean_32: "clean_char 32" by (simp add: clean_char_def)

lemma length_remove_noise: "length (remove_noise s) \<le> length s"
proof (induction s rule: remove_noise.induct)
  case 1
  then show ?case by simp
next
  case (2 c cs)
  show ?case
  proof (cases "noise_match (c # cs)")
    case None
    with 2 show ?thesis by simp
  next
    case (Some n)
    with 2 have "length (remove_noise (drop n (c # cs))) \<le> length (drop n (c # cs))" by simp
    also have "\<dots> \<le> length (c # cs)" by simp
    finally show ?thesis using Some by simp
  qed
qed

lemma noise_match_pos: "noise_match s = Some n \<Longrightarrow> 0 < n"
  by (auto simp: noise_match_def split: if_splits)

lemma remove_noise_shorter: "contains_noise s \<Longrightarrow> length (remove_noise s) < length s"
proof (induction s rule: remove_noise.induct)
  case 1
  then show ?case by simp
next
  case (2 c cs)
  show ?case
  proof (cases "noise_match (c # cs)")
    case None
    with 2 show ?thesis by simp
  next
    case (Some n)
    have "length (remove_noise (drop n (c # cs))) \<le> length (drop n (c # cs))"
      by (rule length_remove_noise)
    also have "\<dots> < length (c # cs)" using noise_match_pos[OF Some] by simp
    finally show ?thesis using Some by simp
  qed
qed

lemma remove_noise_id: "\<not> contains_noise s \<Longrightarrow> remove_noise s = s"
  by (induction s) auto

lemma remove_noise_fixed_iff: "remove_noise s = s \<longleftrightarrow> \<not> contains_noise s"
  using remove_noise_shorter[of s] remove_noise_id[of s] by auto

lemma length_collapse_spaces: "length (collapse_spaces s) \<le> length s"
proof (induction s rule: collapse_spaces.induct)
  case 1
  then show ?case by simp
next
  case (2 c cs)
  have "length (dropWhile is_space cs) \<le> length cs" by (rule length_dropWhile_le)
  with 2 show ?case by auto
qed

lemma length_trim: "length (trim s) \<le> length s"
proof -
  have "length (trim s) = length (dropWhile is_space (rev (dropWhile is_space s)))"
    by (simp add: trim_def)
  also have "\<dots> \<le> length (rev (dropWhile is_space s))" by (rule length_dropWhile_le)
  also have "\<dots> \<le> length s" by (simp add: length_dropWhile_le)
  finally show ?thesis .
qed

lemma collapse_clean:
  "list_all (\<lambda>c. is_lower_alpha c \<or> is_digit c \<or> is_space c) s \<Longrightarrow> list_all clean_char (collapse_spaces s)"
proof (induction s rule: collapse_spaces.induct)
  case 1
  then show ?case by simp
next
  case (2 c cs)
  have "list_all (\<lambda>c. is_lower_alpha c \<or> is_digit c \<or> is_space c) (dropWhile is_space cs)"
    using 2(3) by (auto simp: list_all_iff dest: set_dropWhileD)
  with 2 show ?case by (auto simp: clean_32 keep_clean)
qed

lemma collapse_hd: "s \<noteq> [] \<Longrightarrow> \<not> is_space (hd s) \<Longrightarrow> collapse_spaces s \<noteq> [] \<and> hd (collapse_spaces s) = hd s"
  by (cases s) auto

lemma single_spaced_Cons: "single_spaced (c # s) \<longleftrightarrow> (s = [] \<or> (\<not> (is_space c \<and> is_space (hd s)) \<and> single_spaced s))"
  by (cases s) auto

lemma collapse_single_spaced: "single_spaced (collapse_spaces s)"
proof (induction s rule: collapse_spaces.induct)
  case 1
  then show ?case by simp
next
  case (2 c cs)
  show ?case
  proof (cases "is_space c")
    case True
    let ?d = "dropWhile is_space cs"
    have ih: "single_spaced (collapse_spaces ?d)" using 2 True by simp
    show ?thesis
    proof (cases "?d = []")
      case True
      with \<open>is_space c\<close> show ?thesis by (simp del: dropWhile_eq_Nil_conv)
    next
      case False
      then have "\<not> is_space (hd ?d)" by (rule hd_dropWhile)
      with False collapse_hd[of ?d] have "collapse_spaces ?d \<noteq> []" "\<not> is_space (hd (collapse_spaces ?d))"
        by auto
      with ih \<open>is_space c\<close> show ?thesis by (simp add: single_spaced_Cons)
    qed
  next
    case False
    with 2 show ?thesis by (simp add: single_spaced_Cons)
  qed
qed

lemma single_spaced_append: "single_spaced (xs @ ys) \<Longrightarrow> single_spaced xs \<and> single_spaced ys"
proof (induction xs rule: single_spaced.induct)
  case 1
  then show ?case by simp
next
  case (2 c)
  then show ?case by (cases ys) auto
next
  case (3 c d cs)
  then show ?case by auto
qed

lemma trim_prefix_suffix: "\<exists>a b. s = a @ trim s @ b"
proof -
  let ?x = "dropWhile is_space s"
  have 1: "s = takeWhile is_space s @ ?x" by simp
  have "?x = rev (rev ?x)" by simp
  also have "\<dots> = rev (takeWhile is_space (rev ?x) @ dropWhile is_space (rev ?x))"
    by (simp only: takeWhile_dropWhile_id)
  also have "\<dots> = rev (dropWhile is_space (rev ?x)) @ rev (takeWhile is_space (rev ?x))"
    by (rule rev_append)
  finally have 2: "?x = trim s @ rev (takeWhile is_space (rev ?x))"
    by (simp only: trim_def)
  from 1 2 show ?thesis by metis
qed

lemma trim_single_spaced: "single_spaced s \<Longrightarrow> single_spaced (trim s)"
proof -
  assume a: "single_spaced s"
  obtain x y where "s = x @ trim s @ y" using trim_prefix_suffix by blast
  with a have "single_spaced (x @ trim s @ y)" by simp
  then show ?thesis using single_spaced_append by blast
qed

lemma trim_clean: "list_all clean_char s \<Longrightarrow> list_all clean_char (trim s)"
  by (auto simp: trim_def list_all_iff dest!: set_dropWhileD)

lemma trim_ends: "trim s \<noteq> [] \<Longrightarrow> \<not> is_space (hd (trim s)) \<and> \<not> is_space (last (trim s))"
proof -
  assume ne: "trim s \<noteq> []"
  let ?x = "dropWhile is_space s"
  let ?y = "dropWhile is_space (rev ?x)"
  have t: "trim s = rev ?y" by (simp add: trim_def)
  with ne have yne: "?y \<noteq> []" by simp
  then have hy: "\<not> is_space (hd ?y)" by (rule hd_dropWhile)
  have xne: "?x \<noteq> []"
  proof
    assume "?x = []"
    then have "?y = []" by (simp del: dropWhile_eq_Nil_conv)
    with yne show False by simp
  qed
  then have hx: "\<not> is_space (hd ?x)" by (rule hd_dropWhile)
  have "rev ?x = takeWhile is_space (rev ?x) @ ?y" by simp
  then have "last (rev ?x) = last ?y" using yne by (metis last_appendR)
  then have "last ?y = hd ?x" using xne by (simp add: last_rev)
  moreover have "hd (trim s) = last ?y" using t yne by (simp add: hd_rev)
  moreover have "last (trim s) = hd ?y" using t yne by (simp add: last_rev)
  ultimately show ?thesis using hx hy by simp
qed

lemma collapse_fixed: "list_all clean_char s \<Longrightarrow> single_spaced s \<Longrightarrow> collapse_spaces s = s"
proof (induction s rule: collapse_spaces.induct)
  case 1
  then show ?case by simp
next
  case (2 c cs)
  show ?case
  proof (cases "is_space c")
    case True
    then have c32: "c = 32" using 2(3) clean_space by simp
    have d: "dropWhile is_space cs = cs"
      using 2(4) True by (cases cs) auto
    have "single_spaced cs" using 2(4) by (cases cs) auto
    with 2 True d c32 show ?thesis by simp
  next
    case False
    have "single_spaced cs" using 2(4) by (cases cs) auto
    with 2 False show ?thesis by simp
  qed
qed

lemma trim_fixed: "s = [] \<or> (\<not> is_space (hd s) \<and> \<not> is_space (last s)) \<Longrightarrow> trim s = s"
proof (cases "s = []")
  case True
  then show ?thesis by (simp add: trim_def)
next
  case False
  assume "s = [] \<or> (\<not> is_space (hd s) \<and> \<not> is_space (last s))"
  with False have h: "\<not> is_space (hd s)" and l: "\<not> is_space (last s)" by auto
  from h False have 1: "dropWhile is_space s = s" by (cases s) auto
  from l False have "\<not> is_space (hd (rev s))" by (simp add: hd_rev)
  with False have 2: "dropWhile is_space (rev s) = rev s" by (cases "rev s") auto
  from 1 2 show ?thesis by (simp add: trim_def)
qed

lemma normalizeName_normal_form: "normal_form (normalizeName U s)"
proof -
  let ?k = "\<lambda>c. is_lower_alpha c \<or> is_digit c \<or> is_space c"
  let ?f = "filter ?k (remove_noise (filter (\<lambda>c. \<not> is_combining_mark c) (normalizeNFD U (toLowerCase U s))))"
  have "list_all ?k ?f" by (simp add: list_all_iff)
  then have c: "list_all clean_char (collapse_spaces ?f)" by (rule collapse_clean)
  have s: "single_spaced (collapse_spaces ?f)" by (rule collapse_single_spaced)
  have n: "normalizeName U s = trim (collapse_spaces ?f)" by (simp add: normalizeName_def)
  show ?thesis unfolding normal_form_def n
    using trim_clean[OF c] trim_single_spaced[OF s] trim_ends[of "collapse_spaces ?f"] by blast
qed

lemma normalizeName_on_normal_form:
  assumes "fixes_clean_strings U" "normal_form t"
  shows "normalizeName U t = trim (collapse_spaces (filter (\<lambda>c. is_lower_alpha c \<or> is_digit c \<or> is_space c) (remove_noise t)))"
proof -
  have cl: "list_all clean_char t" using assms(2) by (simp add: normal_form_def)
  then have u: "toLowerCase U t = t" "normalizeNFD U t = t"
    using assms(1) by (auto simp: fixes_clean_strings_def)
  have "filter (\<lambda>c. \<not> is_combining_mark c) t = t"
    using cl by (auto simp: list_all_iff clean_not_mark intro: filter_True)
  with u show ?thesis by (simp add: normalizeName_def)
qed

lemma normal_form_fixed:
  assumes "fixes_clean_strings U" "normal_form t" "\<not> contains_noise t"
  shows "normalizeName U t = t"
proof -
  have cl: "list_all clean_char t" and ss: "single_spaced t"
    and en: "t = [] \<or> (\<not> is_space (hd t) \<and> \<not> is_space (last t))"
    using assms(2) by (auto simp: normal_form_def)
  have "filter (\<lambda>c. is_lower_alpha c \<or> is_digit c \<or> is_space c) t = t"
    using cl by (auto simp: list_all_iff intro!: filter_True dest: clean_keep)
  then show ?thesis
    using normalizeName_on_normal_form[OF assms(1,2)] remove_noise_id[OF assms(3)]
      collapse_fixed[OF cl ss] trim_fixed[OF en] by simp
qed

lemma normal_form_noise_shrinks:
  assumes "fixes_clean_strings U" "normal_form t" "contains_noise t"
  shows "length (normalizeName U t) < length t"
proof -
  let ?k = "\<lambda>c. is_lower_alpha c \<or> is_digit c \<or> is_space c"
  have "length (normalizeName U t) = length (trim (collapse_spaces (filter ?k (remove_noise t))))"
    using normalizeName_on_normal_form[OF assms(1,2)] by simp
  also have "\<dots> \<le> length (collapse_spaces (filter ?k (remove_noise t)))" by (rule length_trim)
  also have "\<dots> \<le> length (filter ?k (remove_noise t))" by (rule length_collapse_spaces)
  also have "\<dots> \<le> length (remove_noise t)" by simp
  also have "\<dots> < length t" using assms(3) by (rule remove_noise_shorter)
  finally show ?thesis .
qed

lemma basic_latin_fixes: "fixes_clean_strings basic_latin"
proof -
  have "\<And>t. list_all clean_char t \<Longrightarrow> map ascii_lower t = t"
    by (rule map_idI) (auto simp: list_all_iff clean_char_def ascii_lower_def is_lower_alpha_def is_digit_def)
  then show ?thesis by (simp add: fixes_clean_strings_def basic_latin_def)
qed

lemmas normalizeName_eval =
  normalizeName_def trim_def noise_match_def four_digits_def is_space_def is_lower_alpha_def
  is_digit_def is_combining_mark_def js_def basic_latin_def ascii_lower_def

lemma normalizeName_jazz: "normalizeName basic_latin (js ''Jazz 20/25'') = js ''jazz 2025''"
  by (simp add: normalizeName_eval)

lemma normalizeName_jazz_again: "normalizeName basic_latin (js ''jazz 2025'') = js ''jazz''"
  by (simp add: normalizeName_eval)

lemma normalizeName_gnaoua:
  "normalizeName basic_latin (js ''Festival Gnaoua et Musiques du Monde 2025'')
     = js ''gnaoua et musiques du monde''"
  by (simp add: normalizeName_eval)

text \<open>
  C5, as the claim has it: \<open>normalize(s) = normalize(normalize(s))\<close> for all strings. The
  name "Jazz 20/25" normalizes to "jazz 2025": the year expression finds no four digits in
  a row before the slash is removed. Normalizing "jazz 2025" removes the year and gives
  "jazz".
\<close>

theorem normalizeName_not_idempotent:
  "normalizeName basic_latin (normalizeName basic_latin (js ''Jazz 20/25''))
     \<noteq> normalizeName basic_latin (js ''Jazz 20/25'')"
  by (simp add: normalizeName_jazz normalizeName_jazz_again) (simp add: js_def)

text \<open>
  C5, amended. The normalizer is a function of its input (lowercase, decomposition,
  combining marks stripped, noise tokens and four-digit years removed, only \<open>a-z\<close>,
  \<open>0-9\<close> and white space kept, white-space runs collapsed, trimmed). Its result consists
  of \<open>a-z\<close>, \<open>0-9\<close> and single spaces, with no space at either end. Normalizing the
  result again gives the result back exactly when the result contains none of festival,
  fest, edition and no four digits in a row. (The Unicode built-ins are taken to leave
  strings of \<open>a-z\<close>, \<open>0-9\<close> and spaces unchanged.)
\<close>

theorem normalizeName_idempotent_iff:
  assumes "fixes_clean_strings U"
  shows "normal_form (normalizeName U s)
     \<and> ((normalizeName U (normalizeName U s) = normalizeName U s)
          = (\<not> contains_noise (normalizeName U s)))"
proof -
  have nf: "normal_form (normalizeName U s)" by (rule normalizeName_normal_form)
  have "contains_noise (normalizeName U s) \<Longrightarrow>
      normalizeName U (normalizeName U s) \<noteq> normalizeName U s"
    using normal_form_noise_shrinks[OF assms nf] by auto
  moreover have "\<not> contains_noise (normalizeName U s) \<Longrightarrow>
      normalizeName U (normalizeName U s) = normalizeName U s"
    using normal_form_fixed[OF assms nf] by simp
  ultimately show ?thesis using nf by blast
qed

theorem normalizeName_idempotent_iff_witness:
  "normalizeName basic_latin
     (normalizeName basic_latin (js ''Festival Gnaoua et Musiques du Monde 2025''))
   = normalizeName basic_latin (js ''Festival Gnaoua et Musiques du Monde 2025'')"
proof -
  have nn: "\<not> contains_noise (js ''gnaoua et musiques du monde'')"
    by (simp add: noise_match_def four_digits_def js_def ascii_lower_def is_digit_def)
  have "\<not> contains_noise
      (normalizeName basic_latin (js ''Festival Gnaoua et Musiques du Monde 2025''))"
    unfolding normalizeName_gnaoua by (rule nn)
  with normalizeName_idempotent_iff[OF basic_latin_fixes,
      of "js ''Festival Gnaoua et Musiques du Monde 2025''"]
  show ?thesis by blast
qed

subsection \<open>City matching\<close>

lemma find_first:
  "\<forall>x \<in> set pre. \<not> P x \<Longrightarrow> P c \<Longrightarrow> find P (pre @ c # post) = Some c"
  by (induction pre) auto

lemma find_none: "\<forall>x \<in> set xs. \<not> P x \<Longrightarrow> find P xs = None"
  by (induction xs) auto

lemma find_exact_find:
  "\<forall>c \<in> set cities. city_name_fr c \<noteq> None \<Longrightarrow>
     find_exact U n cities = Inr (find (exact_city U n) cities)"
  by (induction cities) (auto simp: exact_city_def)

lemma matchCity_find:
  assumes "\<forall>c \<in> set cities. city_name_fr c \<noteq> None" "raw \<noteq> []"
  shows "matchCity lev U cities (Some raw) =
     Inr (case find (exact_city U (normalizeName U raw)) cities of
            Some c \<Rightarrow> Some (city_id c)
          | None \<Rightarrow> (case find (\<lambda>c. lev (normalizeName U (city_name c)) (normalizeName U raw) \<le> 2) cities of
                       Some c \<Rightarrow> Some (city_id c) | None \<Rightarrow> None))"
  using assms by (simp add: matchCity_def Let_def find_exact_find split: option.splits)

lemma normalizeName_safy: "normalizeName basic_latin (js ''Safy'') = js ''safy''"
  by (simp add: normalizeName_eval)

lemma normalizeName_safi: "normalizeName basic_latin (js ''Safi'') = js ''safi''"
  by (simp add: normalizeName_eval)

lemma normalizeName_sale: "normalizeName basic_latin (js ''Sale'') = js ''sale''"
  by (simp add: normalizeName_eval)

lemma levenshtein_sale_safy: "levenshtein (js ''sale'') (js ''safy'') = 2"
  by (simp add: js_def)

lemma levenshtein_safi_safy: "levenshtein (js ''safi'') (js ''safy'') = 1"
  by (simp add: js_def)

lemma matchCity_safy:
  "matchCity levenshtein basic_latin example_cities (Some (js ''Safy'')) = Inr (Some 1)"
  by (simp add: matchCity_def example_cities_def normalizeName_safy normalizeName_safi
      normalizeName_sale levenshtein_sale_safy levenshtein_safi_safy Let_def)
    (simp add: js_def)

lemma matchCity_null_fr:
  "matchCity levenshtein basic_latin example_cities_null_fr (Some (js ''Safi''))
     = Inl (Thrown (js ''TypeError''))"
  by (simp add: matchCity_def example_cities_null_fr_def normalizeName_safi normalizeName_sale
      Let_def)
    (simp add: js_def)

text \<open>
  C6, as the claim has it: for every raw city string an exact match is tried first and,
  failing that, the nearest city within distance 2 is returned. With the table Sale (id 1),
  Safi (id 2) and the input "Safy", no name matches exactly, Safi is at distance 1 and Sale
  at distance 2, and the matcher returns Sale, the first row within the ceiling. And when
  the row Sale has no French name, the input "Safi", the exact name of the second row,
  makes the matcher throw a TypeError at the first row instead of returning Safi.
\<close>

theorem matchCity_not_nearest:
  "matchCity levenshtein basic_latin example_cities (Some (js ''Safy'')) = Inr (Some 1)
   \<and> levenshtein (normalizeName basic_latin (js ''Safi'')) (normalizeName basic_latin (js ''Safy''))
       < levenshtein (normalizeName basic_latin (js ''Sale''))
           (normalizeName basic_latin (js ''Safy''))
   \<and> matchCity levenshtein basic_latin example_cities_null_fr (Some (js ''Safi''))
       = Inl (Thrown (js ''TypeError''))"
  by (simp add: matchCity_safy normalizeName_safy normalizeName_safi normalizeName_sale
      levenshtein_sale_safy levenshtein_safi_safy matchCity_null_fr)

text \<open>
  C6, amended. For every raw city string and every table of cities that all have a French
  name (\<open>name_fr\<close> is not null): a null or empty input gives null. Otherwise the input is normalized; if some city has a normalized name or
  French name equal to it, the first such city in table order is returned; failing that,
  if some city's normalized name is within Levenshtein distance 2 of it, the first such
  city in table order is returned (not necessarily the nearest); failing that, null. A
  city is never returned unless it matches exactly or lies within distance 2.
\<close>

theorem matchCity_first_match:
  assumes "\<forall>c \<in> set cities. city_name_fr c \<noteq> None"
  shows "(rawCity = None \<or> rawCity = Some [] \<longrightarrow>
            matchCity lev U cities rawCity = Inr None)
     \<and> (\<forall>raw pre c post.
           rawCity = Some raw \<and> raw \<noteq> [] \<and> cities = pre @ c # post
           \<and> exact_city U (normalizeName U raw) c
           \<and> (\<forall>c' \<in> set pre. \<not> exact_city U (normalizeName U raw) c') \<longrightarrow>
           matchCity lev U cities rawCity = Inr (Some (city_id c)))
     \<and> (\<forall>raw pre c post.
           rawCity = Some raw \<and> raw \<noteq> [] \<and> cities = pre @ c # post
           \<and> (\<forall>c' \<in> set cities. \<not> exact_city U (normalizeName U raw) c')
           \<and> lev (normalizeName U (city_name c)) (normalizeName U raw) \<le> 2
           \<and> (\<forall>c' \<in> set pre. \<not> lev (normalizeName U (city_name c')) (normalizeName U raw) \<le> 2)
           \<longrightarrow> matchCity lev U cities rawCity = Inr (Some (city_id c)))
     \<and> (\<forall>raw.
           rawCity = Some raw \<and> raw \<noteq> []
           \<and> (\<forall>c' \<in> set cities. \<not> exact_city U (normalizeName U raw) c')
           \<and> (\<forall>c' \<in> set cities. \<not> lev (normalizeName U (city_name c')) (normalizeName U raw) \<le> 2)
           \<longrightarrow> matchCity lev U cities rawCity = Inr None)
     \<and> (\<forall>raw i.
           rawCity = Some raw \<and> matchCity lev U cities rawCity = Inr (Some i) \<longrightarrow>
           (\<exists>c \<in> set cities. city_id c = i
              \<and> (exact_city U (normalizeName U raw) c
                  \<or> lev (normalizeName U (city_name c)) (normalizeName U raw) \<le> 2)))"
proof -
  have a: "rawCity = None \<or> rawCity = Some [] \<longrightarrow> matchCity lev U cities rawCity = Inr None"
    by (auto simp: matchCity_def)
  have b: "\<forall>raw pre c post.
           rawCity = Some raw \<and> raw \<noteq> [] \<and> cities = pre @ c # post
           \<and> exact_city U (normalizeName U raw) c
           \<and> (\<forall>c' \<in> set pre. \<not> exact_city U (normalizeName U raw) c') \<longrightarrow>
           matchCity lev U cities rawCity = Inr (Some (city_id c))"
  proof (intro allI impI)
    fix raw pre c post
    assume h: "rawCity = Some raw \<and> raw \<noteq> [] \<and> cities = pre @ c # post
           \<and> exact_city U (normalizeName U raw) c
           \<and> (\<forall>c' \<in> set pre. \<not> exact_city U (normalizeName U raw) c')"
    then have "\<forall>x \<in> set pre. \<not> exact_city U (normalizeName U raw) x"
      and "exact_city U (normalizeName U raw) c" by blast+
    then have "find (exact_city U (normalizeName U raw)) (pre @ c # post) = Some c"
      by (rule find_first)
    with h have "find (exact_city U (normalizeName U raw)) cities = Some c" by simp
    with h show "matchCity lev U cities rawCity = Inr (Some (city_id c))"
      using matchCity_find[OF assms, of raw lev U] by simp
  qed
  have c: "\<forall>raw pre c post.
           rawCity = Some raw \<and> raw \<noteq> [] \<and> cities = pre @ c # post
           \<and> (\<forall>c' \<in> set cities. \<not> exact_city U (normalizeName U raw) c')
           \<and> lev (normalizeName U (city_name c)) (normalizeName U raw) \<le> 2
           \<and> (\<forall>c' \<in> set pre. \<not> lev (normalizeName U (city_name c')) (normalizeName U raw) \<le> 2)
           \<longrightarrow> matchCity lev U cities rawCity = Inr (Some (city_id c))"
  proof (intro allI impI)
    fix raw pre c post
    let ?near = "\<lambda>c. lev (normalizeName U (city_name c)) (normalizeName U raw) \<le> 2"
    assume h: "rawCity = Some raw \<and> raw \<noteq> [] \<and> cities = pre @ c # post
           \<and> (\<forall>c' \<in> set cities. \<not> exact_city U (normalizeName U raw) c')
           \<and> ?near c \<and> (\<forall>c' \<in> set pre. \<not> ?near c')"
    then have "\<forall>x \<in> set cities. \<not> exact_city U (normalizeName U raw) x" by blast
    then have e: "find (exact_city U (normalizeName U raw)) cities = None"
      by (rule find_none)
    from h have "\<forall>x \<in> set pre. \<not> ?near x" and "?near c" by blast+
    then have "find ?near (pre @ c # post) = Some c"
      by (rule find_first)
    with h have "find ?near cities = Some c" by simp
    with h e show "matchCity lev U cities rawCity = Inr (Some (city_id c))"
      using matchCity_find[OF assms, of raw lev U] by simp
  qed
  have d: "\<forall>raw.
           rawCity = Some raw \<and> raw \<noteq> []
           \<and> (\<forall>c' \<in> set cities. \<not> exact_city U (normalizeName U raw) c')
           \<and> (\<forall>c' \<in> set cities. \<not> lev (normalizeName U (city_name c')) (normalizeName U raw) \<le> 2)
           \<longrightarrow> matchCity lev U cities rawCity = Inr None"
  proof (intro allI impI)
    fix raw
    let ?near = "\<lambda>c. lev (normalizeName U (city_name c)) (normalizeName U raw) \<le> 2"
    assume h: "rawCity = Some raw \<and> raw \<noteq> []
           \<and> (\<forall>c' \<in> set cities. \<not> exact_city U (normalizeName U raw) c')
           \<and> (\<forall>c' \<in> set cities. \<not> ?near c')"
    then have "\<forall>x \<in> set cities. \<not> exact_city U (normalizeName U raw) x" by blast
    then have e: "find (exact_city U (normalizeName U raw)) cities = None"
      by (rule find_none)
    from h have "\<forall>x \<in> set cities. \<not> ?near x" by blast
    then have "find ?near cities = None"
      by (rule find_none)
    with h e show "matchCity lev U cities rawCity = Inr None"
      using matchCity_find[OF assms, of raw lev U] by simp
  qed
  have e: "\<forall>raw i.
           rawCity = Some raw \<and> matchCity lev U cities rawCity = Inr (Some i) \<longrightarrow>
           (\<exists>c \<in> set cities. city_id c = i
              \<and> (exact_city U (normalizeName U raw) c
                  \<or> lev (normalizeName U (city_name c)) (normalizeName U raw) \<le> 2))"
  proof (intro allI impI)
    fix raw i
    let ?near = "\<lambda>c. lev (normalizeName U (city_name c)) (normalizeName U raw) \<le> 2"
    assume h: "rawCity = Some raw \<and> matchCity lev U cities rawCity = Inr (Some i)"
    then have ne: "raw \<noteq> []" by (auto simp: matchCity_def)
    from h matchCity_find[OF assms ne, of lev U]
    have "(\<exists>c. find (exact_city U (normalizeName U raw)) cities = Some c \<and> city_id c = i)
        \<or> (\<exists>c. find ?near cities = Some c \<and> city_id c = i)"
      by (auto split: option.splits)
    then show "\<exists>c \<in> set cities. city_id c = i
              \<and> (exact_city U (normalizeName U raw) c \<or> ?near c)"
      by (auto simp: find_Some_iff)
  qed
  from a b c d e show ?thesis by blast
qed

theorem matchCity_first_match_witness:
  "matchCity levenshtein basic_latin example_cities (Some (js ''Safy'')) = Inr (Some 1)
   \<and> matchCity levenshtein basic_latin example_cities (Some []) = Inr None"
proof -
  let ?sale = "\<lparr> city_id = 1, city_name = js ''Sale'', city_name_fr = Some (js ''Sale'') \<rparr>"
  let ?safi = "\<lparr> city_id = 2, city_name = js ''Safi'', city_name_fr = Some (js ''Safi'') \<rparr>"
  have fr: "\<forall>c \<in> set example_cities. city_name_fr c \<noteq> None"
    by (simp add: example_cities_def)
  have dec: "example_cities = [] @ ?sale # [?safi]"
    by (simp add: example_cities_def)
  have ne: "js ''Safy'' \<noteq> []" by (simp add: js_def)
  have nex: "\<forall>c' \<in> set example_cities.
      \<not> exact_city basic_latin (normalizeName basic_latin (js ''Safy'')) c'"
    by (simp add: example_cities_def exact_city_def normalizeName_safy normalizeName_safi
        normalizeName_sale) (simp add: js_def)
  have near: "levenshtein (normalizeName basic_latin (city_name ?sale))
      (normalizeName basic_latin (js ''Safy'')) \<le> 2"
    by (simp add: normalizeName_safy normalizeName_sale levenshtein_sale_safy)
  have pre: "\<forall>c' \<in> set []. \<not> levenshtein (normalizeName basic_latin (city_name c'))
      (normalizeName basic_latin (js ''Safy'')) \<le> 2"
    by simp
  note t = matchCity_first_match[OF fr, of _ levenshtein basic_latin]
  have r1: "matchCity levenshtein basic_latin example_cities (Some (js ''Safy''))
      = Inr (Some (city_id ?sale))"
    using t[of "Some (js ''Safy'')"] dec ne nex near pre by blast
  have r2: "matchCity levenshtein basic_latin example_cities (Some []) = Inr None"
    using t[of "Some []"] by blast
  from r1 r2 show ?thesis by simp
qed

subsection \<open>Weighted similarity\<close>

lemma dateScore_range: "0 \<le> dateScore env c e \<and> dateScore env c e \<le> 1"
  by (simp add: dateScore_def)

lemma venueScore_range: "0 \<le> venueScore c e \<and> venueScore c e \<le> 1"
  by (simp add: venueScore_def)

lemma venueScore_present:
  assumes "venueId c \<noteq> Some 0" "ev_venueId e \<noteq> Some 0"
  shows "venueScore c e = (if venueId c = None \<or> ev_venueId e = None then 0.5
                           else if venueId c = ev_venueId e then 1 else 0)"
  using assms by (simp add: venueScore_def falsy_id_def)

lemma normalizeName_festival_gnaoua:
  "normalizeName basic_latin (js ''Festival Gnaoua'') = js ''gnaoua''"
  by (simp add: normalizeName_eval)

text \<open>
  C3. For every candidate and event (numbers taken as real numbers, venue ids, where
  present, not the number 0, and a name similarity between 0 and 1), the weighted
  similarity is 0.40 * nameScore + 0.30 * dateScore + 0.20 * locationScore +
  0.10 * venueScore: nameScore is the Jaro-Winkler similarity of the normalized names;
  dateScore is 1 for identical start dates, 0.8 within 1 day, 0.5 within 7 days, else 0;
  locationScore is 1 if the city ids are equal, else 0; venueScore is 0.5 if either venue
  is unknown, 1 if both are present and equal, 0 if both are present and differ. The
  result lies in [0, 1].
\<close>

theorem calculateSimilarity_weighted:
  assumes "0 \<le> jaroWinkler env (normalizedName c) (normalizeName (unicode_ops env) (ev_name e))"
    and "jaroWinkler env (normalizedName c) (normalizeName (unicode_ops env) (ev_name e)) \<le> 1"
    and "venueId c \<noteq> Some 0" and "ev_venueId e \<noteq> Some 0"
  shows "calculateSimilarity env c e =
           0.40 * jaroWinkler env (normalizedName c) (normalizeName (unicode_ops env) (ev_name e))
         + 0.30 * (if startDate c = ev_startDate e then 1
                   else if \<bar>daysBetween env (startDate c) (ev_startDate e)\<bar> \<le> 1 then 0.8
                   else if \<bar>daysBetween env (startDate c) (ev_startDate e)\<bar> \<le> 7 then 0.5
                   else 0)
         + 0.20 * (if cityId c = ev_cityId e then 1 else 0)
         + 0.10 * (if venueId c = None \<or> ev_venueId e = None then 0.5
                   else if venueId c = ev_venueId e then 1 else 0)
     \<and> 0 \<le> calculateSimilarity env c e \<and> calculateSimilarity env c e \<le> 1"
proof -
  let ?n = "jaroWinkler env (normalizedName c) (normalizeName (unicode_ops env) (ev_name e))"
  let ?l = "(if cityId c = ev_cityId e then 1 else 0) :: real"
  have eq: "calculateSimilarity env c e =
      0.40 * ?n + 0.30 * dateScore env c e + 0.20 * ?l + 0.10 * venueScore c e"
    by (simp add: calculateSimilarity_def Let_def)
  have d: "0 \<le> dateScore env c e" "dateScore env c e \<le> 1" using dateScore_range by auto
  have v: "0 \<le> venueScore c e" "venueScore c e \<le> 1" using venueScore_range by auto
  have l: "0 \<le> ?l" "?l \<le> 1" by auto
  have lo: "0 \<le> calculateSimilarity env c e"
    unfolding eq using assms(1) d(1) v(1) l(1) by auto
  have hi: "calculateSimilarity env c e \<le> 1"
    unfolding eq using assms(2) d(2) v(2) l(2) by auto
  have form: "calculateSimilarity env c e =
           0.40 * ?n
         + 0.30 * (if startDate c = ev_startDate e then 1
                   else if \<bar>daysBetween env (startDate c) (ev_startDate e)\<bar> \<le> 1 then 0.8
                   else if \<bar>daysBetween env (startDate c) (ev_startDate e)\<bar> \<le> 7 then 0.5
                   else 0)
         + 0.20 * ?l
         + 0.10 * (if venueId c = None \<or> ev_venueId e = None then 0.5
                   else if venueId c = ev_venueId e then 1 else 0)"
    unfolding eq venueScore_present[OF assms(3,4)] by (simp add: dateScore_def)
  from form lo hi show ?thesis by blast
qed

lemma example_name_similarity:
  "jaroWinkler example_env (normalizedName example_candidate)
     (normalizeName (unicode_ops example_env) (ev_name example_stored_event)) = 1"
  by (simp add: example_env_def example_candidate_def example_stored_event_def
      normalizeName_festival_gnaoua)

lemma example_similarity:
  "calculateSimilarity example_env example_candidate example_stored_event = 0.95"
proof -
  have "calculateSimilarity example_env example_candidate example_stored_event
      = 0.40 * 1 + 0.30 * 1 + 0.20 * 1 + 0.10 * 0.5"
    unfolding calculateSimilarity_def Let_def example_name_similarity
    by (simp add: dateScore_def venueScore_def falsy_id_def example_candidate_def
        example_stored_event_def)
  then show ?thesis by simp
qed

theorem calculateSimilarity_weighted_witness:
  "calculateSimilarity example_env example_candidate example_stored_event = 0.95
   \<and> 0 \<le> calculateSimilarity example_env example_candidate example_stored_event
   \<and> calculateSimilarity example_env example_candidate example_stored_event \<le> 1"
proof -
  have a: "0 \<le> jaroWinkler example_env (normalizedName example_candidate)
      (normalizeName (unicode_ops example_env) (ev_name example_stored_event))"
    by (simp add: example_name_similarity)
  have b: "jaroWinkler example_env (normalizedName example_candidate)
      (normalizeName (unicode_ops example_env) (ev_name example_stored_event)) \<le> 1"
    by (simp add: example_name_similarity)
  have c: "venueId example_candidate \<noteq> Some 0" by (simp add: example_candidate_def)
  have d: "ev_venueId example_stored_event \<noteq> Some 0" by (simp add: example_stored_event_def)
  from calculateSimilarity_weighted[OF a b c d] example_similarity show ?thesis by simp
qed

subsection \<open>The resolver\<close>

lemma fuzzy_loop_first:
  "\<forall>m' \<in> set pre. match_similarity env c m' < 0.85 \<Longrightarrow> match_similarity env c m \<ge> 0.85 \<Longrightarrow>
     fuzzy_loop env c (pre @ m # post) =
       Some \<lparr> action = Merge, existingEventId = Some (eventId m),
              confidence = match_similarity env c m, matchType = MatchFuzzyName \<rparr>"
  by (induction pre) (auto simp: match_similarity_def Let_def)

lemma fuzzy_loop_none:
  "\<forall>m \<in> set ms. match_similarity env c m < 0.85 \<Longrightarrow> fuzzy_loop env c ms = None"
  by (induction ms) (auto simp: match_similarity_def Let_def)

lemma date_location_loop_first:
  "\<forall>m' \<in> set pre. match_name_similarity env c m' < 0.70 \<Longrightarrow> match_name_similarity env c m \<ge> 0.70 \<Longrightarrow>
     date_location_loop env c (pre @ m # post) =
       Some \<lparr> action = Review, existingEventId = Some (eventId m),
              confidence = match_name_similarity env c m, matchType = MatchDateLocation \<rparr>"
  by (induction pre) (auto simp: match_name_similarity_def Let_def)

lemma date_location_loop_none:
  "\<forall>m \<in> set ms. match_name_similarity env c m < 0.70 \<Longrightarrow> date_location_loop env c ms = None"
  by (induction ms) (auto simp: match_name_similarity_def Let_def)

text \<open>
  C2. The resolver decides in order and the first match wins. An exact fingerprint match
  gives merge at confidence 0.95, match type exact. Otherwise the first fuzzy-name match (in
  lookup order) whose weighted similarity is at least 0.85 gives merge at that similarity,
  match type fuzzy_name. Otherwise the first date-location match whose Jaro-Winkler name
  similarity is at least 0.70 gives review at that similarity, match type date_location.
  Otherwise the result is create at confidence 1.0, match type none.
\<close>

theorem deduplicateCandidate_first_match_wins:
  "(\<forall>m. findMatchByFingerprint env (fingerprints c) Exact = Some m \<longrightarrow>
       deduplicateCandidate env c =
         \<lparr> action = Merge, existingEventId = Some (eventId m), confidence = 0.95,
           matchType = MatchExact \<rparr>)
   \<and> (findMatchByFingerprint env (fingerprints c) Exact = None \<longrightarrow>
       (\<forall>pre m post.
           findMatchesByFingerprint env (fingerprints c) FuzzyName = pre @ m # post
           \<and> (\<forall>m' \<in> set pre. match_similarity env c m' < 0.85)
           \<and> match_similarity env c m \<ge> 0.85 \<longrightarrow>
           deduplicateCandidate env c =
             \<lparr> action = Merge, existingEventId = Some (eventId m),
               confidence = match_similarity env c m, matchType = MatchFuzzyName \<rparr>)
       \<and> ((\<forall>m \<in> set (findMatchesByFingerprint env (fingerprints c) FuzzyName).
              match_similarity env c m < 0.85) \<longrightarrow>
            (\<forall>pre m post.
                findMatchesByFingerprint env (fingerprints c) DateLocation = pre @ m # post
                \<and> (\<forall>m' \<in> set pre. match_name_similarity env c m' < 0.70)
                \<and> match_name_similarity env c m \<ge> 0.70 \<longrightarrow>
                deduplicateCandidate env c =
                  \<lparr> action = Review, existingEventId = Some (eventId m),
                    confidence = match_name_similarity env c m,
                    matchType = MatchDateLocation \<rparr>)
            \<and> ((\<forall>m \<in> set (findMatchesByFingerprint env (fingerprints c) DateLocation).
                   match_name_similarity env c m < 0.70) \<longrightarrow>
                 deduplicateCandidate env c =
                   \<lparr> action = Create, existingEventId = None, confidence = 1.0,
                     matchType = MatchNone \<rparr>)))"
proof -
  let ?fz = "findMatchesByFingerprint env (fingerprints c) FuzzyName"
  let ?dl = "findMatchesByFingerprint env (fingerprints c) DateLocation"
  have s1: "\<forall>m. findMatchByFingerprint env (fingerprints c) Exact = Some m \<longrightarrow>
       deduplicateCandidate env c =
         \<lparr> action = Merge, existingEventId = Some (eventId m), confidence = 0.95,
           matchType = MatchExact \<rparr>"
    by (simp add: deduplicateCandidate_def)
  have s2: "findMatchByFingerprint env (fingerprints c) Exact = None \<Longrightarrow>
       ?fz = pre @ m # post \<Longrightarrow> \<forall>m' \<in> set pre. match_similarity env c m' < 0.85 \<Longrightarrow>
       match_similarity env c m \<ge> 0.85 \<Longrightarrow>
       deduplicateCandidate env c =
             \<lparr> action = Merge, existingEventId = Some (eventId m),
               confidence = match_similarity env c m, matchType = MatchFuzzyName \<rparr>"
    for pre m post
    using fuzzy_loop_first[of pre env c m post] by (simp add: deduplicateCandidate_def)
  have s3: "findMatchByFingerprint env (fingerprints c) Exact = None \<Longrightarrow>
       \<forall>m \<in> set ?fz. match_similarity env c m < 0.85 \<Longrightarrow>
       ?dl = pre @ m # post \<Longrightarrow> \<forall>m' \<in> set pre. match_name_similarity env c m' < 0.70 \<Longrightarrow>
       match_name_similarity env c m \<ge> 0.70 \<Longrightarrow>
       deduplicateCandidate env c =
                  \<lparr> action = Review, existingEventId = Some (eventId m),
                    confidence = match_name_similarity env c m,
                    matchType = MatchDateLocation \<rparr>"
    for pre m post
    using fuzzy_loop_none[of ?fz env c] date_location_loop_first[of pre env c m post]
    by (simp add: deduplicateCandidate_def)
  have s4: "findMatchByFingerprint env (fingerprints c) Exact = None \<Longrightarrow>
       \<forall>m \<in> set ?fz. match_similarity env c m < 0.85 \<Longrightarrow>
       \<forall>m \<in> set ?dl. match_name_similarity env c m < 0.70 \<Longrightarrow>
       deduplicateCandidate env c =
                   \<lparr> action = Create, existingEventId = None, confidence = 1.0,
                     matchType = MatchNone \<rparr>"
    using fuzzy_loop_none[of ?fz env c] date_location_loop_none[of ?dl env c]
    by (simp add: deduplicateCandidate_def)
  from s1 s2 s3 s4 show ?thesis by blast
qed

theorem deduplicateCandidate_first_match_wins_witness:
  "deduplicateCandidate example_env example_candidate =
     \<lparr> action = Merge, existingEventId = Some 10, confidence = 0.95,
       matchType = MatchFuzzyName \<rparr>"
proof -
  have e: "findMatchByFingerprint example_env (fingerprints example_candidate) Exact = None"
    by (simp add: example_env_def)
  have f: "findMatchesByFingerprint example_env (fingerprints example_candidate) FuzzyName
      = [] @ \<lparr> eventId = 10 \<rparr> # []"
    by (simp add: example_env_def)
  have g: "getEvent example_env (eventId \<lparr> eventId = 10 \<rparr>) = example_stored_event"
    by (simp add: example_env_def)
  have v: "match_similarity example_env example_candidate \<lparr> eventId = 10 \<rparr> = 0.95"
    unfolding match_similarity_def g by (rule example_similarity)
  have p: "\<forall>m' \<in> set []. match_similarity example_env example_candidate m' < 0.85"
    by simp
  have q: "match_similarity example_env example_candidate \<lparr> eventId = 10 \<rparr> \<ge> 0.85"
    unfolding v by simp
  from deduplicateCandidate_first_match_wins[of example_env example_candidate] e f p q
  have "deduplicateCandidate example_env example_candidate =
      \<lparr> action = Merge, existingEventId = Some (eventId \<lparr> eventId = 10 \<rparr>),
        confidence = match_similarity example_env example_candidate \<lparr> eventId = 10 \<rparr>,
        matchType = MatchFuzzyName \<rparr>"
    by blast
  then show ?thesis unfolding v by simp
qed

subsection \<open>Confidence score\<close>

lemma sourceReliability_Max:
  "sources \<noteq> [] \<Longrightarrow> sourceReliability sources = Max (es_reliabilityScore ` set sources)"
proof -
  assume "sources \<noteq> []"
  then obtain s ss where e: "sources = s # ss" by (cases sources) auto
  have "fold max (map es_reliabilityScore ss) (es_reliabilityScore s)
      = Max (set (es_reliabilityScore s # map es_reliabilityScore ss))"
    by (simp only: Max.set_eq_fold)
  with e show ?thesis by (simp add: sourceReliability_def)
qed

lemma sourceReliability_range:
  assumes "\<forall>s \<in> set sources. 0 \<le> es_reliabilityScore s \<and> es_reliabilityScore s \<le> 1"
  shows "0 \<le> sourceReliability sources \<and> sourceReliability sources \<le> 1"
proof (cases "sources = []")
  case True
  then show ?thesis by (simp add: sourceReliability_def)
next
  case False
  then have "sourceReliability sources \<in> es_reliabilityScore ` set sources"
    using sourceReliability_Max[OF False] Max_in[of "es_reliabilityScore ` set sources"] by simp
  with assms show ?thesis by auto
qed

lemma completeness_range: "0 \<le> completeness e \<and> completeness e \<le> 1"
  by (simp add: completeness_def Let_def)

lemma agreement_range: "0 \<le> calculateSourceAgreement env e ss \<and> calculateSourceAgreement env e ss \<le> 1"
  by (simp add: calculateSourceAgreement_def Let_def)

lemma recency_range:
  "0 \<le> recency env e \<and> (0 \<le> daysSinceVerification env e \<longrightarrow> recency env e \<le> 1)"
  by (simp add: recency_def)

lemma completeness_explicit:
  "completeness e =
     0.7 * ((3 + (if ev_cityId e = None then 0 else 1)) / 4)
     + 0.3 * (((if ev_endDate e = None then 0 else 1)
               + (if ev_venueId e = None then 0 else 1)
               + (if ev_description e = None then 0 else 1)
               + (if ev_officialWebsite e = None then 0 else 1)) / 4)"
  by (simp add: completeness_def Let_def)

lemma recency_at_most_one: "0 \<le> (x::real) \<Longrightarrow> max 0 (1 - x / 90) \<le> 1"
  by simp

lemma weighted_at_most_one: "(s::real) \<le> 0.9 + 0.10 * m \<Longrightarrow> m \<le> 1 \<Longrightarrow> s \<le> 1"
  by auto

lemma skewed_score: "calculateConfidenceScore skewed_env 10 = 901 / 900"
  by (simp add: calculateConfidenceScore_def sourceReliability_def completeness_def
      calculateSourceAgreement_def recency_def daysSinceVerification_def historicalAccuracy_def
      skewed_env_def skewed_event_def skewed_source_def example_env_def filter_Boolean_def
      reported_date_def reported_venue_def js_or_def truthy_def js_def Let_def)

lemma overrated_score: "1 < calculateConfidenceScore overrated_env 10"
  by (simp add: calculateConfidenceScore_def sourceReliability_def completeness_def
      calculateSourceAgreement_def recency_def daysSinceVerification_def historicalAccuracy_def
      overrated_env_def example_env_def example_stored_event_def js_def Let_def)

lemma percent_score: "1 < calculateConfidenceScore percent_env 10"
  by (simp add: calculateConfidenceScore_def sourceReliability_def completeness_def
      calculateSourceAgreement_def recency_def daysSinceVerification_def historicalAccuracy_def
      percent_env_def example_env_def example_stored_event_def js_def Let_def)

text \<open>
  C4, as the claim has it: the confidence always lies in [0, 1]. Event 10 of the skewed
  store is complete, has two agreeing sources of reliability 1 and accuracy 1, and a
  verification stamp one day later than the clock reading: the day difference is -1, T is
  1 + 1/90 (the recency is clamped from below only), and the confidence is 901/900. The
  score also exceeds 1 when a source carries a reliability of 2, or an accuracy of 80:
  neither is clamped.
\<close>

theorem calculateConfidenceScore_above_one:
  "calculateConfidenceScore skewed_env 10 = 901 / 900
   \<and> 1 < calculateConfidenceScore skewed_env 10
   \<and> 1 < calculateConfidenceScore overrated_env 10
   \<and> 1 < calculateConfidenceScore percent_env 10"
  by (simp add: skewed_score overrated_score percent_score)

text \<open>
  C4, amended. For every event whose sources have reliabilities in [0, 1] and whose first
  source has a historical accuracy in [0, 1] when it is known (numbers taken as real
  numbers), the recomputed confidence is 0.35*R + 0.25*C + 0.20*A + 0.10*T + 0.10*H, where
  R is the largest reliability among the event's sources and 0.3 when it has none, C is
  0.7 times the share of the required fields present plus 0.3 times the share of the
  optional fields present, A is the source agreement and is 0.5 when the event has at most
  one source, T is max(0, 1 - days_since_last_verified/90) with 365 days for an event never
  verified, and H is the accuracy of the first source and 0.5 when it is unknown. The
  confidence is at least 0 and at most 0.9 + 0.10*T; it is at most 1 whenever the last
  verification is not later than the clock reading.
\<close>

theorem calculateConfidenceScore_bounds:
  assumes rel: "\<forall>s \<in> set (getEventSources env i).
                  0 \<le> es_reliabilityScore s \<and> es_reliabilityScore s \<le> 1"
    and acc: "\<forall>h. getSourceHistoricalAccuracy env
                     (case getEventSources env i of [] \<Rightarrow> None | s # rest \<Rightarrow> Some (es_sourceId s))
                   = Some h \<longrightarrow> 0 \<le> h \<and> h \<le> 1"
  shows "calculateConfidenceScore env i =
           0.35 * (if getEventSources env i = [] then 0.3
                   else Max (es_reliabilityScore ` set (getEventSources env i)))
         + 0.25 * (0.7 * ((3 + (if ev_cityId (getEvent env i) = None then 0 else 1)) / 4)
                   + 0.3 * (((if ev_endDate (getEvent env i) = None then 0 else 1)
                             + (if ev_venueId (getEvent env i) = None then 0 else 1)
                             + (if ev_description (getEvent env i) = None then 0 else 1)
                             + (if ev_officialWebsite (getEvent env i) = None then 0 else 1)) / 4))
         + 0.20 * calculateSourceAgreement env (getEvent env i) (getEventSources env i)
         + 0.10 * max 0 (1 - (case ev_lastVerifiedAt (getEvent env i) of
                                None \<Rightarrow> 365
                              | Some d \<Rightarrow> if d = [] then 365 else daysBetween env d (now env)) / 90)
         + 0.10 * (case getSourceHistoricalAccuracy env
                          (case getEventSources env i of
                             [] \<Rightarrow> None | s # rest \<Rightarrow> Some (es_sourceId s)) of
                     None \<Rightarrow> 0.5
                   | Some h \<Rightarrow> h)
     \<and> (length (getEventSources env i) \<le> 1 \<longrightarrow>
          calculateSourceAgreement env (getEvent env i) (getEventSources env i) = 0.5)
     \<and> 0 \<le> calculateConfidenceScore env i
     \<and> calculateConfidenceScore env i \<le>
         0.9 + 0.10 * max 0 (1 - (case ev_lastVerifiedAt (getEvent env i) of
                                    None \<Rightarrow> 365
                                  | Some d \<Rightarrow> if d = [] then 365
                                             else daysBetween env d (now env)) / 90)
     \<and> ((\<forall>d. ev_lastVerifiedAt (getEvent env i) = Some d \<and> d \<noteq> [] \<longrightarrow>
              0 \<le> daysBetween env d (now env)) \<longrightarrow>
          calculateConfidenceScore env i \<le> 1)"
proof -
  let ?ss = "getEventSources env i"
  let ?e = "getEvent env i"
  let ?days = "case ev_lastVerifiedAt ?e of
                 None \<Rightarrow> 365
               | Some d \<Rightarrow> if d = [] then 365 else daysBetween env d (now env)"
  have eq: "calculateConfidenceScore env i =
           0.35 * sourceReliability ?ss + 0.25 * completeness ?e
         + 0.20 * calculateSourceAgreement env ?e ?ss + 0.10 * recency env ?e
         + 0.10 * historicalAccuracy env ?ss"
    by (simp add: calculateConfidenceScore_def Let_def)
  have r: "sourceReliability ?ss =
      (if ?ss = [] then 0.3 else Max (es_reliabilityScore ` set ?ss))"
    using sourceReliability_Max[of ?ss] by (simp add: sourceReliability_def)
  have a: "length ?ss \<le> 1 \<longrightarrow> calculateSourceAgreement env ?e ?ss = 0.5"
    by (simp add: calculateSourceAgreement_def)
  have t: "recency env ?e = max 0 (1 - ?days / 90)"
    by (simp add: recency_def daysSinceVerification_def)
  have h: "historicalAccuracy env ?ss =
      (case getSourceHistoricalAccuracy env
              (case ?ss of [] \<Rightarrow> None | s # rest \<Rightarrow> Some (es_sourceId s)) of
         None \<Rightarrow> 0.5 | Some h \<Rightarrow> h)"
    by (simp add: historicalAccuracy_def)
  have form: "calculateConfidenceScore env i =
           0.35 * (if ?ss = [] then 0.3 else Max (es_reliabilityScore ` set ?ss))
         + 0.25 * (0.7 * ((3 + (if ev_cityId ?e = None then 0 else 1)) / 4)
                   + 0.3 * (((if ev_endDate ?e = None then 0 else 1)
                             + (if ev_venueId ?e = None then 0 else 1)
                             + (if ev_description ?e = None then 0 else 1)
                             + (if ev_officialWebsite ?e = None then 0 else 1)) / 4))
         + 0.20 * calculateSourceAgreement env ?e ?ss
         + 0.10 * max 0 (1 - ?days / 90)
         + 0.10 * (case getSourceHistoricalAccuracy env
                          (case ?ss of [] \<Rightarrow> None | s # rest \<Rightarrow> Some (es_sourceId s)) of
                     None \<Rightarrow> 0.5 | Some h \<Rightarrow> h)"
    unfolding eq r t h completeness_explicit[of ?e] by (rule refl)
  have rR: "0 \<le> sourceReliability ?ss" "sourceReliability ?ss \<le> 1"
    using sourceReliability_range[OF rel] by auto
  have rC: "0 \<le> completeness ?e" "completeness ?e \<le> 1"
    using completeness_range by auto
  have rA: "0 \<le> calculateSourceAgreement env ?e ?ss" "calculateSourceAgreement env ?e ?ss \<le> 1"
    using agreement_range by auto
  have rT: "0 \<le> recency env ?e" by (simp add: recency_def)
  have rH: "0 \<le> historicalAccuracy env ?ss" "historicalAccuracy env ?ss \<le> 1"
    using acc by (auto simp: historicalAccuracy_def split: option.splits)
  have lo: "0 \<le> calculateConfidenceScore env i"
    unfolding eq using rR(1) rC(1) rA(1) rT rH(1) by auto
  have "calculateConfidenceScore env i \<le> 0.9 + 0.10 * recency env ?e"
    unfolding eq using rR(2) rC(2) rA(2) rH(2) by auto
  then have up: "calculateConfidenceScore env i \<le> 0.9 + 0.10 * max 0 (1 - ?days / 90)"
    unfolding t .
  have hi: "(\<forall>d. ev_lastVerifiedAt ?e = Some d \<and> d \<noteq> [] \<longrightarrow> 0 \<le> daysBetween env d (now env))
      \<longrightarrow> calculateConfidenceScore env i \<le> 1"
  proof
    assume d: "\<forall>d. ev_lastVerifiedAt ?e = Some d \<and> d \<noteq> [] \<longrightarrow> 0 \<le> daysBetween env d (now env)"
    have "0 \<le> ?days" using d by (auto split: option.splits)
    then have "max 0 (1 - ?days / 90) \<le> 1" by (rule recency_at_most_one)
    with up show "calculateConfidenceScore env i \<le> 1" by (rule weighted_at_most_one)
  qed
  from form a lo up hi show ?thesis by blast
qed

theorem calculateConfidenceScore_bounds_witness:
  "calculateSourceAgreement example_env (getEvent example_env 10)
       (getEventSources example_env 10) = 0.5
   \<and> 0 \<le> calculateConfidenceScore example_env 10
   \<and> calculateConfidenceScore example_env 10 \<le> 1"
proof -
  have rel: "\<forall>s \<in> set (getEventSources example_env 10).
      0 \<le> es_reliabilityScore s \<and> es_reliabilityScore s \<le> 1"
    by (simp add: example_env_def)
  have acc: "\<forall>h. getSourceHistoricalAccuracy example_env
        (case getEventSources example_env 10 of [] \<Rightarrow> None | s # rest \<Rightarrow> Some (es_sourceId s))
      = Some h \<longrightarrow> 0 \<le> h \<and> h \<le> 1"
    by (simp add: example_env_def)
  have days: "\<forall>d. ev_lastVerifiedAt (getEvent example_env 10) = Some d \<and> d \<noteq> [] \<longrightarrow>
      0 \<le> daysBetween example_env d (now example_env)"
    by (simp add: example_env_def)
  have one: "length (getEventSources example_env 10) \<le> 1"
    by (simp add: example_env_def)
  from calculateConfidenceScore_bounds[OF rel acc] days one show ?thesis by blast
qed

section \<open>Properties of the search index synchronization\<close>

subsection \<open>Full rebuild\<close>




















lemma example_select: "map row_id (select_indexable_events example_db) = [1, 3]"
  by (simp add: select_indexable_events_def joined_rows_def example_db_def example_db_event_def
      indexable_statuses_def left_join_def make_row_def js_def)


















subsection \<open>Single events\<close>









end
